theory Spec2Isabelle
  imports Main "HOL-Library.Sublist" "HOL-Library.Word"
begin

section \<open>Values, errors and effects\<close>

text \<open>
  The product catalogue service (\<^verbatim>\<open>products.service.ts\<close>) and the object-store
  wrapper (\<^verbatim>\<open>minio.service.ts\<close>) are embedded as state-passing functions.

  A property of a JavaScript object that may be missing, \<^verbatim>\<open>null\<close> or set is a
  \<open>field\<close>; \<^verbatim>\<open>delete o.p\<close> and the rest pattern
  \<^verbatim>\<open>const { p, ...rest } = o\<close> make it \<open>Absent\<close>.
\<close>

datatype 'a field = Absent | Null | Value 'a

text \<open>JavaScript truthiness of a string-typed and of a boolean-typed property.\<close>

fun truthy_string :: "string field \<Rightarrow> bool" where
  "truthy_string (Value s) = (s \<noteq> [])"
| "truthy_string Null = False"
| "truthy_string Absent = False"

fun truthy_bool :: "bool field \<Rightarrow> bool" where
  "truthy_bool (Value b) = b"
| "truthy_bool Null = False"
| "truthy_bool Absent = False"

text \<open>
  The three HTTP exceptions the service raises. The messages of the source are Russian
  text; the message of \<open>NotFoundException\<close> is determined by the id it carries
  (``product with ID <id> not found''), \<open>BadRequestException\<close> carries which of the three
  messages it has, \<open>InternalServerErrorException\<close> has the single message ``could not
  upload the image''. \<open>ExternalError\<close> is any other error value thrown by a collaborator,
  \<open>Nullish\<close> a rejection with \<^verbatim>\<open>undefined\<close> or \<^verbatim>\<open>null\<close>, and \<open>TypeError\<close> what
  the language raises when a property of \<^verbatim>\<open>undefined\<close> or \<^verbatim>\<open>null\<close> is read.
\<close>

datatype bad_request =
    UpdateDeleted   \<comment> \<open>``a deleted product cannot be updated''\<close>
  | FileMissing     \<comment> \<open>``no file was provided''\<close>
  | NotAnImage      \<comment> \<open>``the file must be an image''\<close>

datatype exn =
    NotFoundException int
  | BadRequestException bad_request
  | InternalServerErrorException
  | ExternalError string
  | Nullish
  | TypeError

type_synonym byte = "8 word"

subsection \<open>Objects\<close>

text \<open>
  The entity and DTO classes are declared outside the two service files. The records below
  hold the properties the services read or write, with the types the services use them at;
  every other column or property lives in the extension slot of the record (or, for an
  update patch, where the service itself builds the object literal \<^verbatim>\<open>{ imageUrl }\<close>,
  in the map \<open>others\<close>). An optional property of a DTO is an \<open>option\<close>, \<open>None\<close> being
  \<^verbatim>\<open>undefined\<close>. Ids, stock quantities and the port are integers, the values their
  declared type \<^verbatim>\<open>number\<close> is used for here.
\<close>

record productEntity =
  imageUrl :: "string field"
  isDeleted :: "bool field"

record createProductDto =
  stockQuantity :: "int option"
  inStock :: "bool option"

record 'v updateProductDto =
  stockQuantity :: "int option"
  inStock :: "bool option"
  imageUrl :: "string option"
  others :: "string \<rightharpoonup> 'v"

record productFiltersDto =
  includeDeleted :: "bool option"

record multerFile =
  mimetype :: string
  buffer :: "byte list"

text \<open>The configuration keys \<^verbatim>\<open>ConfigService.get\<close> is asked for; a missing key is \<open>None\<close>.\<close>

record minioConfig =
  MINIO_BUCKET :: "string option"
  MINIO_ENDPOINT :: "string option"
  MINIO_PORT :: "int option"
  MINIO_USE_SSL :: "string option"

subsection \<open>Collaborators and the trace of calls\<close>

text \<open>
  The repository (\<^verbatim>\<open>TypeORMProductsRepository\<close>) and the MinIO client are collaborators
  whose code is not part of the services. They are a parameter: a record of operations on
  an arbitrary world \<open>'w\<close> (database and object store), each returning a value or throwing.
  Every call the services make to them is appended to a trace, so that a statement can say
  which calls were made, in which order and with which arguments. The record also holds
  the clock and \<open>number_toString\<close>, the way the JavaScript engine prints a number that is
  not a safe integer.
\<close>

datatype console_level = ConsoleLog | ConsoleWarn | ConsoleError

datatype ('f, 'c, 'v) call =
    RepoFindAll "'f productFiltersDto_scheme"
  | RepoFindById int
  | RepoCreate "'c createProductDto_scheme"
  | RepoUpdate int "'v updateProductDto"
  | RepoSoftDelete int
  | PutObject "string option" string "byte list" nat "(string \<times> string) list"
  | PresignedGetObject "string option" string nat
  | RemoveObject "string option" "string option"
  | Console console_level

record ('w, 'p, 'f, 'c, 'v) externals =
  repo_findAll :: "'f productFiltersDto_scheme \<Rightarrow> 'w \<Rightarrow> (exn + 'p productEntity_scheme list) \<times> 'w"
  repo_findById :: "int \<Rightarrow> 'w \<Rightarrow> (exn + 'p productEntity_scheme option) \<times> 'w"
  repo_create :: "'c createProductDto_scheme \<Rightarrow> 'w \<Rightarrow> (exn + 'p productEntity_scheme) \<times> 'w"
  repo_update :: "int \<Rightarrow> 'v updateProductDto \<Rightarrow> 'w \<Rightarrow> (exn + 'p productEntity_scheme) \<times> 'w"
  repo_softDelete :: "int \<Rightarrow> 'w \<Rightarrow> (exn + unit) \<times> 'w"
  minio_putObject ::
    "string option \<Rightarrow> string \<Rightarrow> byte list \<Rightarrow> nat \<Rightarrow> (string \<times> string) list \<Rightarrow> 'w \<Rightarrow> (exn + unit) \<times> 'w"
  minio_presignedGetObject :: "string option \<Rightarrow> string \<Rightarrow> nat \<Rightarrow> 'w \<Rightarrow> (exn + string) \<times> 'w"
  minio_removeObject :: "string option \<Rightarrow> string option \<Rightarrow> 'w \<Rightarrow> (exn + unit) \<times> 'w"
  date_now :: "'w \<Rightarrow> nat"
  number_toString :: "int \<Rightarrow> string"

record ('w, 'f, 'c, 'v) state =
  world :: 'w
  trace :: "('f, 'c, 'v) call list"

type_synonym ('a, 'w, 'f, 'c, 'v) io =
  "('w, 'f, 'c, 'v) state \<Rightarrow> (exn + 'a) \<times> ('w, 'f, 'c, 'v) state"

text \<open>
  An \<^verbatim>\<open>async\<close> function is a computation that returns a value or throws, and changes the
  state: \<open>ret\<close> is \<^verbatim>\<open>return\<close>, \<open>throw\<close> is \<^verbatim>\<open>throw\<close>, \<open>bind m f\<close> is
  \<^verbatim>\<open>const x = await m; f(x)\<close> (an exception of \<open>m\<close> skips \<open>f\<close>), and
  \<open>try_catch m h\<close> is \<^verbatim>\<open>try { m } catch (error) { h(error) }\<close>.
\<close>

definition ret :: "'a \<Rightarrow> ('a, 'w, 'f, 'c, 'v) io" where
  "ret x = (\<lambda>s. (Inr x, s))"

definition throw :: "exn \<Rightarrow> ('a, 'w, 'f, 'c, 'v) io" where
  "throw e = (\<lambda>s. (Inl e, s))"

definition bind :: "('a, 'w, 'f, 'c, 'v) io \<Rightarrow> ('a \<Rightarrow> ('b, 'w, 'f, 'c, 'v) io) \<Rightarrow> ('b, 'w, 'f, 'c, 'v) io" where
  "bind m f = (\<lambda>s. case m s of (Inl e, s') \<Rightarrow> (Inl e, s') | (Inr x, s') \<Rightarrow> f x s')"

definition try_catch :: "('a, 'w, 'f, 'c, 'v) io \<Rightarrow> (exn \<Rightarrow> ('a, 'w, 'f, 'c, 'v) io) \<Rightarrow> ('a, 'w, 'f, 'c, 'v) io" where
  "try_catch m h = (\<lambda>s. case m s of (Inl e, s') \<Rightarrow> h e s' | (Inr x, s') \<Rightarrow> (Inr x, s'))"

text \<open>A call to a collaborator: logged in the trace, answered by the collaborator.\<close>

definition external ::
  "('f, 'c, 'v) call \<Rightarrow> ('w \<Rightarrow> (exn + 'a) \<times> 'w) \<Rightarrow> ('a, 'w, 'f, 'c, 'v) io" where
  "external c f = (\<lambda>s. case f (world s) of (r, w') \<Rightarrow> (r, \<lparr>world = w', trace = trace s @ [c]\<rparr>))"

definition console :: "console_level \<Rightarrow> (unit, 'w, 'f, 'c, 'v) io" where
  "console l = (\<lambda>s. (Inr (), s\<lparr>trace := trace s @ [Console l]\<rparr>))"

text \<open>
  \<^verbatim>\<open>Promise.all(xs.map(f))\<close>: the results keep the order of \<open>xs\<close>. Each \<open>f x\<close> runs up to
  its first call of the MinIO client when \<open>map\<close> applies it, so the calls start in list
  order; the model runs the items one after the other.
\<close>

fun promise_all_map ::
  "('a \<Rightarrow> ('b, 'w, 'f, 'c, 'v) io) \<Rightarrow> 'a list \<Rightarrow> ('b list, 'w, 'f, 'c, 'v) io" where
  "promise_all_map f [] = ret []"
| "promise_all_map f (x # xs) =
     bind (f x) (\<lambda>y. bind (promise_all_map f xs) (\<lambda>ys. ret (y # ys)))"

subsection \<open>Strings\<close>

text \<open>\<^verbatim>\<open>s.split(c)\<close> for a one-character separator: never the empty array.\<close>

fun split :: "char \<Rightarrow> string \<Rightarrow> string list" where
  "split c [] = [[]]"
| "split c (x # xs) =
     (if x = c then [] # split c xs
      else (case split c xs of [] \<Rightarrow> [[x]] | p # ps \<Rightarrow> (x # p) # ps))"

text \<open>\<^verbatim>\<open>xs.pop()\<close> (the value only) and \<^verbatim>\<open>xs[i]\<close>: \<^verbatim>\<open>undefined\<close> is \<open>None\<close>.\<close>

definition pop :: "'a list \<Rightarrow> 'a option" where
  "pop xs = (if xs = [] then None else Some (last xs))"

definition index :: "'a list \<Rightarrow> int \<Rightarrow> 'a option" where
  "index xs i = (if 0 \<le> i \<and> i < int (length xs) then Some (xs ! nat i) else None)"

text \<open>
  A number in a template literal. A safe integer (at most \<^verbatim>\<open>Number.MAX_SAFE_INTEGER\<close> in
  absolute value) prints in plain decimal. Beyond, a JavaScript number is a rounded value
  and prints with padding zeros or, from \<open>10\<^sup>2\<^sup>1\<close>, in exponent form: that printing is
  left to the engine.
\<close>

definition digit :: "nat \<Rightarrow> char" where
  "digit n = ''0123456789'' ! n"

function string_of_nat :: "nat \<Rightarrow> string" where
  "string_of_nat n = (if n < 10 then [digit n] else string_of_nat (n div 10) @ [digit (n mod 10)])"
  by pat_completeness auto
termination
  by (relation "measure id") auto

declare string_of_nat.simps [simp del]

definition string_of_int :: "int \<Rightarrow> string" where
  "string_of_int i = (if i < 0 then CHR ''-'' # string_of_nat (nat (- i)) else string_of_nat (nat i))"

definition MAX_SAFE_INTEGER :: int where
  "MAX_SAFE_INTEGER = 9007199254740991"

definition number_string :: "('w, 'p, 'f, 'c, 'v) externals \<Rightarrow> int \<Rightarrow> string" where
  "number_string E n = (if abs n \<le> MAX_SAFE_INTEGER then string_of_int n else number_toString E n)"

text \<open>A possibly undefined value in a template literal.\<close>

definition template_string :: "string option \<Rightarrow> string" where
  "template_string v = (case v of None \<Rightarrow> ''undefined'' | Some s \<Rightarrow> s)"

definition template_number :: "('w, 'p, 'f, 'c, 'v) externals \<Rightarrow> int option \<Rightarrow> string" where
  "template_number E v = (case v of None \<Rightarrow> ''undefined'' | Some n \<Rightarrow> number_string E n)"

text \<open>
  \<^verbatim>\<open>error.message\<close> in a \<^verbatim>\<open>catch\<close> handler: reading the property raises a
  \<^verbatim>\<open>TypeError\<close> when the caught value is \<^verbatim>\<open>undefined\<close> or \<^verbatim>\<open>null\<close>. The arguments of
  \<^verbatim>\<open>console.error\<close> are evaluated before it is called, so nothing is printed then.
\<close>

definition error_message :: "exn \<Rightarrow> (unit, 'w, 'f, 'c, 'v) io" where
  "error_message error = (if error = Nullish then throw TypeError else ret ())"

section \<open>The object-store service\<close>

text \<open>\<^verbatim>\<open>this.bucketName\<close>, read from the configuration by the constructor.\<close>

definition bucketName :: "'m minioConfig_scheme \<Rightarrow> string option" where
  "bucketName cfg = MINIO_BUCKET cfg"

text \<open>\<^verbatim>\<open>Date.now()\<close>: the clock of the world, in milliseconds.\<close>

definition dateNow :: "('w, 'p, 'f, 'c, 'v) externals \<Rightarrow> (nat, 'w, 'f, 'c, 'v) io" where
  "dateNow E = (\<lambda>s. (Inr (date_now E (world s)), s))"

definition uploadProductImage ::
  "('w, 'p, 'f, 'c, 'v) externals \<Rightarrow> 'm minioConfig_scheme \<Rightarrow> byte list \<Rightarrow> int \<Rightarrow> (string, 'w, 'f, 'c, 'v) io" where
  "uploadProductImage E cfg file productId =
     bind (dateNow E) (\<lambda>now.
       let fileName = ''product-'' @ number_string E productId @ ''-'' @ number_string E (int now)
                        @ ''.jpg''
       in bind (external (PutObject (bucketName cfg) fileName file (length file) [(''Content-Type'', ''image/jpeg'')])
                  (minio_putObject E (bucketName cfg) fileName file (length file) [(''Content-Type'', ''image/jpeg'')]))
            (\<lambda>_. let protocol = (if MINIO_USE_SSL cfg = Some ''true'' then ''https'' else ''http'');
                      endpoint = MINIO_ENDPOINT cfg;
                      port = MINIO_PORT cfg
                  in ret (protocol @ ''://'' @ template_string endpoint @ '':'' @ template_number E port
                            @ ''/'' @ template_string (bucketName cfg) @ ''/'' @ fileName)))"

definition getSignedUrl ::
  "('w, 'p, 'f, 'c, 'v) externals \<Rightarrow> 'm minioConfig_scheme \<Rightarrow> string option \<Rightarrow> (string option, 'w, 'f, 'c, 'v) io" where
  "getSignedUrl E cfg fileName =
     (case fileName of
        None \<Rightarrow> ret None
      | Some name \<Rightarrow>
          if name = [] then ret None
          else
            (let expiresIn = 7 * 24 * 60 * 60
             in try_catch
                  (bind (external (PresignedGetObject (bucketName cfg) name expiresIn)
                           (minio_presignedGetObject E (bucketName cfg) name expiresIn))
                     (\<lambda>signedUrl. ret (Some signedUrl)))
                  (\<lambda>error. bind (error_message error) (\<lambda>_.
                     bind (console ConsoleError) (\<lambda>_. ret None)))))"

definition deleteFile ::
  "('w, 'p, 'f, 'c, 'v) externals \<Rightarrow> 'm minioConfig_scheme \<Rightarrow> string option \<Rightarrow> (unit, 'w, 'f, 'c, 'v) io" where
  "deleteFile E cfg fileName =
     try_catch
       (external (RemoveObject (bucketName cfg) fileName)
          (minio_removeObject E (bucketName cfg) fileName))
       (\<lambda>error. bind (error_message error) (\<lambda>_.
          bind (console ConsoleError) (\<lambda>_. throw error)))"

section \<open>The product service\<close>

text \<open>
  The block that turns the stored image URL into a signed one is written out four times in
  the source (in \<^verbatim>\<open>findAll\<close>, \<^verbatim>\<open>findById\<close>, \<^verbatim>\<open>update\<close> and \<^verbatim>\<open>uploadImage\<close>);
  the copies differ only in that the \<^verbatim>\<open>catch\<close> of \<^verbatim>\<open>findAll\<close> prints a warning. It is
  one function here, the flag \<open>warn\<close> saying whether the warning is printed.
\<close>

definition resolveImage ::
  "bool \<Rightarrow> ('w, 'p, 'f, 'c, 'v) externals \<Rightarrow> 'm minioConfig_scheme \<Rightarrow> 'p productEntity_scheme
     \<Rightarrow> ('p productEntity_scheme, 'w, 'f, 'c, 'v) io" where
  "resolveImage warn E cfg product =
     (case productEntity.imageUrl product of
        Value url \<Rightarrow>
          if url = [] then ret product
          else
            (let fileName = pop (split CHR ''/'' url)
             in try_catch
                  (bind (getSignedUrl E cfg fileName) (\<lambda>signedUrl.
                     case signedUrl of
                       Some u \<Rightarrow>
                         if u \<noteq> [] then ret (product\<lparr>productEntity.imageUrl := Value u\<rparr>)
                         else ret (product\<lparr>productEntity.imageUrl := Absent\<rparr>)
                     | None \<Rightarrow> ret (product\<lparr>productEntity.imageUrl := Absent\<rparr>)))
                  (\<lambda>error.
                     bind (if warn then console ConsoleWarn else ret ()) (\<lambda>_.
                       ret (product\<lparr>productEntity.imageUrl := Absent\<rparr>))))
      | Null \<Rightarrow> ret product
      | Absent \<Rightarrow> ret product)"

text \<open>\<^verbatim>\<open>const { isDeleted, ...productData } = product\<close>: the object without that property.\<close>

definition productData :: "'p productEntity_scheme \<Rightarrow> 'p productEntity_scheme" where
  "productData product = product\<lparr>isDeleted := Absent\<rparr>"

definition findAll ::
  "('w, 'p, 'f, 'c, 'v) externals \<Rightarrow> 'm minioConfig_scheme \<Rightarrow> 'f productFiltersDto_scheme
     \<Rightarrow> ('p productEntity_scheme list, 'w, 'f, 'c, 'v) io" where
  "findAll E cfg filters0 =
     (let filters = (if includeDeleted filters0 = None then filters0\<lparr>includeDeleted := Some False\<rparr>
                     else filters0)
      in bind (external (RepoFindAll filters) (repo_findAll E filters)) (\<lambda>products.
           promise_all_map
             (\<lambda>product. bind (resolveImage True E cfg product) (\<lambda>product. ret (productData product)))
             products))"

definition findById ::
  "('w, 'p, 'f, 'c, 'v) externals \<Rightarrow> 'm minioConfig_scheme \<Rightarrow> int
     \<Rightarrow> ('p productEntity_scheme, 'w, 'f, 'c, 'v) io" where
  "findById E cfg ident =
     bind (external (RepoFindById ident) (repo_findById E ident)) (\<lambda>found.
       case found of
         None \<Rightarrow> throw (NotFoundException ident)
       | Some product \<Rightarrow>
           if truthy_bool (isDeleted product) then throw (NotFoundException ident)
           else bind (resolveImage False E cfg product) (\<lambda>product. ret (productData product)))"

definition create ::
  "('w, 'p, 'f, 'c, 'v) externals \<Rightarrow> 'c createProductDto_scheme
     \<Rightarrow> ('p productEntity_scheme, 'w, 'f, 'c, 'v) io" where
  "create E createProductDto0 =
     (let createProductDto =
            (if createProductDto.stockQuantity createProductDto0 = Some 0
             then createProductDto0\<lparr>createProductDto.inStock := Some False\<rparr>
             else createProductDto0)
      in bind (external (RepoCreate createProductDto) (repo_create E createProductDto)) (\<lambda>product.
           ret (productData product)))"

definition update ::
  "('w, 'p, 'f, 'c, 'v) externals \<Rightarrow> 'm minioConfig_scheme \<Rightarrow> int \<Rightarrow> 'v updateProductDto
     \<Rightarrow> ('p productEntity_scheme, 'w, 'f, 'c, 'v) io" where
  "update E cfg ident updateProductDto0 =
     bind (external (RepoFindById ident) (repo_findById E ident)) (\<lambda>found.
       case found of
         None \<Rightarrow> throw (NotFoundException ident)
       | Some product \<Rightarrow>
           if truthy_bool (isDeleted product) then throw (BadRequestException UpdateDeleted)
           else
             (let updateProductDto =
                    (case updateProductDto.stockQuantity updateProductDto0 of
                       Some q \<Rightarrow> updateProductDto0\<lparr>updateProductDto.inStock := Some (q > 0)\<rparr>
                     | None \<Rightarrow> updateProductDto0)
              in bind (external (RepoUpdate ident updateProductDto) (repo_update E ident updateProductDto))
                   (\<lambda>updatedProduct.
                      bind (resolveImage False E cfg updatedProduct) (\<lambda>updatedProduct.
                        ret (productData updatedProduct)))))"

definition remove :: "('w, 'p, 'f, 'c, 'v) externals \<Rightarrow> int \<Rightarrow> (unit, 'w, 'f, 'c, 'v) io" where
  "remove E ident =
     bind (external (RepoFindById ident) (repo_findById E ident)) (\<lambda>found.
       case found of
         None \<Rightarrow> throw (NotFoundException ident)
       | Some product \<Rightarrow>
           if truthy_bool (isDeleted product) then throw (NotFoundException ident)
           else external (RepoSoftDelete ident) (repo_softDelete E ident))"

definition deleteOldImage ::
  "('w, 'p, 'f, 'c, 'v) externals \<Rightarrow> 'm minioConfig_scheme \<Rightarrow> string \<Rightarrow> (unit, 'w, 'f, 'c, 'v) io" where
  "deleteOldImage E cfg url =
     try_catch
       (let urlParts = split CHR ''/'' url;
            fileName = index urlParts (int (length urlParts) - 1)
        in deleteFile E cfg fileName)
       (\<lambda>error. bind (error_message error) (\<lambda>_. console ConsoleWarn))"

definition uploadImage ::
  "('w, 'p, 'f, 'c, 'v) externals \<Rightarrow> 'm minioConfig_scheme \<Rightarrow> int \<Rightarrow> 'x multerFile_scheme option
     \<Rightarrow> ('p productEntity_scheme, 'w, 'f, 'c, 'v) io" where
  "uploadImage E cfg ident file =
     bind (external (RepoFindById ident) (repo_findById E ident)) (\<lambda>found.
       case found of
         None \<Rightarrow> throw (NotFoundException ident)
       | Some product \<Rightarrow>
           if truthy_bool (isDeleted product) then throw (NotFoundException ident)
           else
             (case file of
                None \<Rightarrow> throw (BadRequestException FileMissing)
              | Some f \<Rightarrow>
                  if \<not> prefix ''image/'' (mimetype f) then throw (BadRequestException NotAnImage)
                  else
                    try_catch
                      (bind (if truthy_string (productEntity.imageUrl product)
                             then (case productEntity.imageUrl product of
                                     Value url \<Rightarrow> deleteOldImage E cfg url
                                   | Null \<Rightarrow> ret ()
                                   | Absent \<Rightarrow> ret ())
                             else ret ()) (\<lambda>_.
                         bind (uploadProductImage E cfg (buffer f) ident) (\<lambda>url.
                           bind (external
                                   (RepoUpdate ident
                                      \<lparr>stockQuantity = None, inStock = None,
                                       updateProductDto.imageUrl = Some url, others = Map.empty\<rparr>)
                                   (repo_update E ident
                                      \<lparr>stockQuantity = None, inStock = None,
                                       updateProductDto.imageUrl = Some url, others = Map.empty\<rparr>))
                             (\<lambda>updatedProduct.
                                bind (resolveImage False E cfg updatedProduct) (\<lambda>updatedProduct.
                                  ret (productData updatedProduct))))))
                      (\<lambda>error. bind (console ConsoleError) (\<lambda>_. throw InternalServerErrorException))))"

section \<open>The image-resolution rule in the words of the specification\<close>

text \<open>
  The specification describes the post-processing of a returned product: the trailing path
  segment of the stored URL is the object key; when signing that key yields a URL the
  \<^verbatim>\<open>imageUrl\<close> is replaced by it, and when signing yields nothing or raises, the
  property is removed. \<open>signed_image\<close> is the property this rule leaves for a stored URL,
  the signing being asked in world \<open>w\<close>; \<open>resolved\<close> is the product after the rule
  (a product whose \<^verbatim>\<open>imageUrl\<close> is missing, \<^verbatim>\<open>null\<close> or empty has no image and is
  left as it is). These two definitions follow the specification, not the source; the
  theorems below compare the source with them.
\<close>

definition signed_image ::
  "('w, 'p, 'f, 'c, 'v) externals \<Rightarrow> 'm minioConfig_scheme \<Rightarrow> string \<Rightarrow> 'w \<Rightarrow> string field" where
  "signed_image E cfg url w =
     (let key = last (split CHR ''/'' url)
      in if key = [] then Absent
         else (case fst (minio_presignedGetObject E (bucketName cfg) key 604800 w) of
                 Inl e \<Rightarrow> Absent
               | Inr u \<Rightarrow> if u = [] then Absent else Value u))"

definition resolved ::
  "('w, 'p, 'f, 'c, 'v) externals \<Rightarrow> 'm minioConfig_scheme \<Rightarrow> 'w \<Rightarrow> 'p productEntity_scheme \<Rightarrow> 'p productEntity_scheme" where
  "resolved E cfg w product =
     (case productEntity.imageUrl product of
        Value url \<Rightarrow> if url = [] then product else product\<lparr>productEntity.imageUrl := signed_image E cfg url w\<rparr>
      | Null \<Rightarrow> product
      | Absent \<Rightarrow> product)"

text \<open>
  The world after the resolution of a product: the one the signing call leaves, when the
  rule asks for a signature.
\<close>

definition signing_world ::
  "('w, 'p, 'f, 'c, 'v) externals \<Rightarrow> 'm minioConfig_scheme \<Rightarrow> 'w \<Rightarrow> 'p productEntity_scheme \<Rightarrow> 'w" where
  "signing_world E cfg w product =
     (case productEntity.imageUrl product of
        Value url \<Rightarrow>
          if url = [] \<or> last (split CHR ''/'' url) = [] then w
          else snd (minio_presignedGetObject E (bucketName cfg) (last (split CHR ''/'' url)) 604800 w)
      | Null \<Rightarrow> w
      | Absent \<Rightarrow> w)"

section \<open>Concrete collaborators\<close>

text \<open>
  Modelled from the spec: the repository class \<^verbatim>\<open>TypeORMProductsRepository\<close> is not among
  the service files. The in-memory repository below follows the repository contract of the
  specification (\<^verbatim>\<open>findAll(filters)\<close>, \<^verbatim>\<open>findById(id)\<close>, \<^verbatim>\<open>create(fields)\<close>,
  \<^verbatim>\<open>update(id, patch)\<close>, \<^verbatim>\<open>softDelete(id)\<close>): listing leaves soft-deleted rows out unless
  they are asked for, a partial update overwrites the properties the patch sets, and a soft
  delete flips the flag and never removes the row. The object store beside it signs, stores
  and removes objects while it is reachable, and throws otherwise; removing an object that
  is not there throws as well. Its engine prints in exponent form from \<open>10\<^sup>2\<^sup>1\<close>, as
  JavaScript does for a power of ten. The general theorems hold for every collaborator; these
  are the ones the theorems are instantiated with.
\<close>

record productRow = productEntity +
  row_id :: int
  row_stockQuantity :: "int option"
  row_inStock :: "bool option"

record memory =
  rows :: "(int \<times> productRow) list"
  next_ident :: int
  objects :: "string list"
  reachable :: bool
  clock :: nat

definition set_row :: "int \<Rightarrow> productRow \<Rightarrow> (int \<times> productRow) list \<Rightarrow> (int \<times> productRow) list" where
  "set_row i p rs = map (\<lambda>(k, v). if k = i then (k, p) else (k, v)) rs"

definition memory_findAll :: "productFiltersDto \<Rightarrow> memory \<Rightarrow> (exn + productRow list) \<times> memory" where
  "memory_findAll filters w =
     (Inr (filter (\<lambda>p. includeDeleted filters = Some True \<or> \<not> truthy_bool (isDeleted p)) (map snd (rows w))), w)"

definition memory_findById :: "int \<Rightarrow> memory \<Rightarrow> (exn + productRow option) \<times> memory" where
  "memory_findById i w = (Inr (map_of (rows w) i), w)"

definition memory_create :: "createProductDto \<Rightarrow> memory \<Rightarrow> (exn + productRow) \<times> memory" where
  "memory_create dto w =
     (let p = \<lparr>productEntity.imageUrl = Null, isDeleted = Value False, row_id = next_ident w,
               row_stockQuantity = createProductDto.stockQuantity dto,
               row_inStock = createProductDto.inStock dto\<rparr>
      in (Inr p, w\<lparr>rows := rows w @ [(next_ident w, p)], next_ident := next_ident w + 1\<rparr>))"

definition memory_update :: "int \<Rightarrow> unit updateProductDto \<Rightarrow> memory \<Rightarrow> (exn + productRow) \<times> memory" where
  "memory_update i patch w =
     (case map_of (rows w) i of
        None \<Rightarrow> (Inl (ExternalError ''no such row''), w)
      | Some p \<Rightarrow>
          (let p' = p\<lparr>productEntity.imageUrl :=
                          (case updateProductDto.imageUrl patch of
                             None \<Rightarrow> productEntity.imageUrl p | Some u \<Rightarrow> Value u),
                      row_stockQuantity :=
                          (case updateProductDto.stockQuantity patch of
                             None \<Rightarrow> row_stockQuantity p | Some q \<Rightarrow> Some q),
                      row_inStock :=
                          (case updateProductDto.inStock patch of
                             None \<Rightarrow> row_inStock p | Some b \<Rightarrow> Some b)\<rparr>
           in (Inr p', w\<lparr>rows := set_row i p' (rows w)\<rparr>)))"

definition memory_softDelete :: "int \<Rightarrow> memory \<Rightarrow> (exn + unit) \<times> memory" where
  "memory_softDelete i w =
     (Inr (), w\<lparr>rows := map (\<lambda>(k, v). if k = i then (k, v\<lparr>isDeleted := Value True\<rparr>) else (k, v)) (rows w)\<rparr>)"

definition memory_putObject ::
  "string option \<Rightarrow> string \<Rightarrow> byte list \<Rightarrow> nat \<Rightarrow> (string \<times> string) list \<Rightarrow> memory \<Rightarrow> (exn + unit) \<times> memory" where
  "memory_putObject b k bytes n meta w =
     (if reachable w then (Inr (), w\<lparr>objects := k # objects w\<rparr>)
      else (Inl (ExternalError ''store unreachable''), w))"

definition memory_presignedGetObject :: "string option \<Rightarrow> string \<Rightarrow> nat \<Rightarrow> memory \<Rightarrow> (exn + string) \<times> memory" where
  "memory_presignedGetObject b k expires w =
     (if reachable w then (Inr (''signed/'' @ k), w)
      else (Inl (ExternalError ''store unreachable''), w))"

definition memory_removeObject :: "string option \<Rightarrow> string option \<Rightarrow> memory \<Rightarrow> (exn + unit) \<times> memory" where
  "memory_removeObject b k w =
     (case k of
        None \<Rightarrow> (Inl (ExternalError ''invalid object name''), w)
      | Some key \<Rightarrow>
          if reachable w \<and> key \<in> set (objects w) then (Inr (), w\<lparr>objects := removeAll key (objects w)\<rparr>)
          else (Inl (ExternalError ''no such object''), w))"

definition exponent_form :: "int \<Rightarrow> string" where
  "exponent_form n =
     (let digits = string_of_nat (nat (abs n));
          mantissa = rev (dropWhile (\<lambda>c. c = CHR ''0'') (rev digits))
      in (if n < 0 then ''-'' else [])
           @ (case mantissa of [] \<Rightarrow> ''0'' | [d] \<Rightarrow> [d] | d # rest \<Rightarrow> d # CHR ''.'' # rest)
           @ ''e+'' @ string_of_nat (length digits - 1))"

definition engine_toString :: "int \<Rightarrow> string" where
  "engine_toString n = (if abs n < 1000000000000000000000 then string_of_int n else exponent_form n)"

definition memory_externals :: "(memory, unit productRow_ext, unit, unit, unit) externals" where
  "memory_externals =
     \<lparr>repo_findAll = memory_findAll, repo_findById = memory_findById, repo_create = memory_create,
      repo_update = memory_update, repo_softDelete = memory_softDelete,
      minio_putObject = memory_putObject, minio_presignedGetObject = memory_presignedGetObject,
      minio_removeObject = memory_removeObject, date_now = clock,
      number_toString = engine_toString\<rparr>"

definition config0 :: minioConfig where
  "config0 = \<lparr>MINIO_BUCKET = Some ''products'', MINIO_ENDPOINT = Some ''localhost'',
              MINIO_PORT = Some 9000, MINIO_USE_SSL = Some ''false''\<rparr>"

definition row1 :: productRow where
  "row1 = \<lparr>productEntity.imageUrl = Value ''http://localhost:9000/products/product-1-17.jpg'',
           isDeleted = Value False, row_id = 1, row_stockQuantity = Some 3, row_inStock = Some True\<rparr>"

definition row2 :: productRow where
  "row2 = \<lparr>productEntity.imageUrl = Null, isDeleted = Value True, row_id = 2,
           row_stockQuantity = Some 0, row_inStock = Some False\<rparr>"

definition memory0 :: memory where
  "memory0 = \<lparr>rows = [(1, row1), (2, row2)], next_ident = 3, objects = [], reachable = True, clock = 1700000000000\<rparr>"

definition state0 :: "(memory, unit, unit, unit) state" where
  "state0 = \<lparr>world = memory0, trace = []\<rparr>"

definition patch0 :: "unit updateProductDto" where
  "patch0 = \<lparr>stockQuantity = Some 5, inStock = None, updateProductDto.imageUrl = None, others = Map.empty\<rparr>"

text \<open>
  Two create inputs: the example of the specification (no stock, but said to be in stock),
  and a product with stock that the caller says is not in stock.
\<close>

definition widget :: createProductDto where
  "widget = \<lparr>createProductDto.stockQuantity = Some 0, createProductDto.inStock = Some True\<rparr>"

definition gadget :: createProductDto where
  "gadget = \<lparr>createProductDto.stockQuantity = Some 5, createProductDto.inStock = Some False\<rparr>"

text \<open>
  Further inputs: a configuration with TLS, a world whose object store cannot be reached,
  a repository whose lookup throws, an image file and a text file, and the stored image URL
  of row 1.
\<close>

definition config_tls :: minioConfig where
  "config_tls = \<lparr>MINIO_BUCKET = Some ''products'', MINIO_ENDPOINT = Some ''cdn.example.org'',
                 MINIO_PORT = Some 443, MINIO_USE_SSL = Some ''true''\<rparr>"

definition state_down :: "(memory, unit, unit, unit) state" where
  "state_down = \<lparr>world = memory0\<lparr>reachable := False\<rparr>, trace = []\<rparr>"

definition broken_repository :: "(memory, unit productRow_ext, unit, unit, unit) externals" where
  "broken_repository =
     memory_externals\<lparr>repo_findById := \<lambda>i w. (Inl (ExternalError ''connection lost''), w)\<rparr>"

text \<open>
  A store whose client rejects the signing and the removal with \<^verbatim>\<open>undefined\<close>, and a
  repository whose insert gives every new product a placeholder image.
\<close>

definition rejecting_store :: "(memory, unit productRow_ext, unit, unit, unit) externals" where
  "rejecting_store =
     memory_externals\<lparr>minio_presignedGetObject := \<lambda>b k expires w. (Inl Nullish, w),
                      minio_removeObject := \<lambda>b k w. (Inl Nullish, w)\<rparr>"

definition placeholder_image :: string where
  "placeholder_image = ''http://localhost:9000/products/placeholder.jpg''"

definition placeholder_repository :: "(memory, unit productRow_ext, unit, unit, unit) externals" where
  "placeholder_repository =
     memory_externals\<lparr>repo_create := \<lambda>dto w.
        (case memory_create dto w of
           (Inr p, w') \<Rightarrow>
             (Inr (p\<lparr>productEntity.imageUrl := Value placeholder_image\<rparr>),
              w'\<lparr>rows := set_row (row_id p) (p\<lparr>productEntity.imageUrl := Value placeholder_image\<rparr>) (rows w')\<rparr>)
         | (Inl e, w') \<Rightarrow> (Inl e, w'))\<rparr>"

definition png :: multerFile where
  "png = \<lparr>mimetype = ''image/png'', buffer = [137, 80, 78, 71]\<rparr>"

definition text_file :: multerFile where
  "text_file = \<lparr>mimetype = ''text/plain'', buffer = [104, 105]\<rparr>"

definition old_url :: string where
  "old_url = ''http://localhost:9000/products/product-1-17.jpg''"

text \<open>
  Filters without and with the soft-deleted rows, and row 1 as the service returns it, after
  a restock, and with the URL of a newly uploaded image.
\<close>

definition no_filters :: productFiltersDto where
  "no_filters = \<lparr>includeDeleted = None\<rparr>"

definition with_deleted :: productFiltersDto where
  "with_deleted = \<lparr>includeDeleted = Some True\<rparr>"

definition row1_signed :: productRow where
  "row1_signed = row1\<lparr>productEntity.imageUrl := Value ''signed/product-1-17.jpg'', isDeleted := Absent\<rparr>"

definition row1_restocked :: productRow where
  "row1_restocked = row1\<lparr>row_stockQuantity := Some 5, row_inStock := Some True\<rparr>"

definition row1_new_image :: productRow where
  "row1_new_image
     = row1\<lparr>productEntity.imageUrl := Value ''http://localhost:9000/products/product-1-1700000000000.jpg''\<rparr>"

section \<open>Vocabulary of the statements\<close>

text \<open>The calls of a trace that go to the repository, in their order.\<close>

fun repository_call :: "('f, 'c, 'v) call \<Rightarrow> bool" where
  "repository_call (RepoFindAll filters) = True"
| "repository_call (RepoFindById i) = True"
| "repository_call (RepoCreate dto) = True"
| "repository_call (RepoUpdate i patch) = True"
| "repository_call (RepoSoftDelete i) = True"
| "repository_call (PutObject b k bytes n meta) = False"
| "repository_call (PresignedGetObject b k expires) = False"
| "repository_call (RemoveObject b k) = False"
| "repository_call (Console l) = False"

definition repository_calls :: "('f, 'c, 'v) call list \<Rightarrow> ('f, 'c, 'v) call list" where
  "repository_calls cs = filter repository_call cs"

text \<open>
  Modelled from the spec: what the repository's \<^verbatim>\<open>softDelete\<close> does is outside the service
  files. The specification says that it flips the soft-delete flag of the record and that
  \<^verbatim>\<open>findById\<close> is a query; as a contract on the collaborators: after a successful
  \<^verbatim>\<open>softDelete(id)\<close>, \<^verbatim>\<open>findById(id)\<close> returns no record or a record whose flag is
  set, and leaves the world as it is.
\<close>

definition soft_delete_contract :: "('w, 'p, 'f, 'c, 'v) externals \<Rightarrow> bool" where
  "soft_delete_contract E =
     (\<forall>i w w'. repo_softDelete E i w = (Inr (), w') \<longrightarrow>
        (\<exists>found. repo_findById E i w' = (Inr found, w')
           \<and> (case found of None \<Rightarrow> True | Some p \<Rightarrow> truthy_bool (isDeleted p))))"

text \<open>
  The object key and the URL as the specification writes them:
  \<^verbatim>\<open>product-<id>-<unix-millis>.jpg\<close> and \<^verbatim>\<open>scheme://host:port/bucket/key\<close>, the numbers
  printed as the language prints them, and the call that stores bytes under a key with the
  fixed content type.
\<close>

definition image_key :: "('w, 'p, 'f, 'c, 'v) externals \<Rightarrow> int \<Rightarrow> nat \<Rightarrow> string" where
  "image_key E productId millis =
     ''product-'' @ number_string E productId @ ''-'' @ number_string E (int millis) @ ''.jpg''"

definition image_url :: "('w, 'p, 'f, 'c, 'v) externals \<Rightarrow> 'm minioConfig_scheme \<Rightarrow> string \<Rightarrow> string" where
  "image_url E cfg key =
     (if MINIO_USE_SSL cfg = Some ''true'' then ''https'' else ''http'') @ ''://''
       @ template_string (MINIO_ENDPOINT cfg) @ '':'' @ template_number E (MINIO_PORT cfg)
       @ ''/'' @ template_string (MINIO_BUCKET cfg) @ ''/'' @ key"

definition put_image :: "'m minioConfig_scheme \<Rightarrow> byte list \<Rightarrow> string \<Rightarrow> ('f, 'c, 'v) call" where
  "put_image cfg bytes key =
     PutObject (MINIO_BUCKET cfg) key bytes (length bytes) [(''Content-Type'', ''image/jpeg'')]"

text \<open>Update patches: a restock (\<open>patch0\<close>), a sell-out and one that leaves the stock alone.\<close>

definition sold_out :: "unit updateProductDto" where
  "sold_out = \<lparr>stockQuantity = Some 0, inStock = Some True, updateProductDto.imageUrl = None, others = Map.empty\<rparr>"

definition rename :: "unit updateProductDto" where
  "rename = \<lparr>stockQuantity = None, inStock = Some False, updateProductDto.imageUrl = None,
             others = [''name'' \<mapsto> ()]\<rparr>"

text \<open>
  What it means that \<^verbatim>\<open>update\<close> applies a patch to product \<open>ident\<close> via the repository,
  \<open>outcome\<close> being the result and the state of the call from state \<open>s\<close>: the repository
  calls are the lookup and one \<^verbatim>\<open>update\<close> with that patch, in this order; when the repository
  update throws, the error is the result and its world is the world left; when it returns a
  product, that product, resolved and without the soft-delete flag, is the result, and the
  world left is the one of the repository update after the signing of the image.
\<close>

definition applies_patch ::
  "('w, 'p, 'f, 'c, 'v) externals \<Rightarrow> 'm minioConfig_scheme \<Rightarrow> int \<Rightarrow> ('w, 'f, 'c, 'v) state
     \<Rightarrow> 'v updateProductDto
     \<Rightarrow> (exn + 'p productEntity_scheme) \<times> ('w, 'f, 'c, 'v) state \<Rightarrow> bool" where
  "applies_patch E cfg ident s patch outcome =
     (let upd = repo_update E ident patch (snd (repo_findById E ident (world s)))
      in repository_calls (trace (snd outcome))
           = repository_calls (trace s) @ [RepoFindById ident, RepoUpdate ident patch]
         \<and> (case fst upd of
               Inl e \<Rightarrow>
                 outcome = (Inl e, \<lparr>world = snd upd,
                                     trace = trace s @ [RepoFindById ident, RepoUpdate ident patch]\<rparr>)
             | Inr updated \<Rightarrow>
                 fst outcome = Inr (productData (resolved E cfg (snd upd) updated))
                 \<and> world (snd outcome) = signing_world E cfg (snd upd) updated))"

text \<open>
  A product id from which JavaScript prints in exponent form, and the row the repository with
  the placeholder image inserts for the widget.
\<close>

definition huge :: int where
  "huge = 1000000000000000000000"

definition row3_placeholder :: productRow where
  "row3_placeholder = \<lparr>productEntity.imageUrl = Value placeholder_image, isDeleted = Value False,
                       row_id = 3, row_stockQuantity = Some 0, row_inStock = Some False\<rparr>"


section \<open>How the computations run\<close>

text \<open>One rule for each combinator: what it returns when it is run from a state.\<close>

lemma bind_run:
  "bind m f s = (case m s of (Inl e, s') \<Rightarrow> (Inl e, s') | (Inr x, s') \<Rightarrow> f x s')"
  by (simp add: bind_def)

lemma try_catch_run:
  "try_catch m h s = (case m s of (Inl e, s') \<Rightarrow> h e s' | (Inr x, s') \<Rightarrow> (Inr x, s'))"
  by (simp add: try_catch_def)

lemma ret_run: "ret x s = (Inr x, s)"
  by (simp add: ret_def)

lemma throw_run: "throw e s = (Inl e, s)"
  by (simp add: throw_def)

lemma console_run: "console l s = (Inr (), s\<lparr>trace := trace s @ [Console l]\<rparr>)"
  by (simp add: console_def)

lemma external_run:
  "external c f s = (fst (f (world s)), \<lparr>world = snd (f (world s)), trace = trace s @ [c]\<rparr>)"
  by (simp add: external_def split: prod.splits)

lemma error_message_run:
  "error_message e s = (if e = Nullish then (Inl TypeError, s) else (Inr (), s))"
  by (simp add: error_message_def throw_def ret_def)

lemmas run = bind_run try_catch_run ret_run throw_run console_run external_run error_message_run

lemma split_not_Nil: "split c s \<noteq> []"
  by (induction s) (auto split: list.splits)

lemma pop_split: "pop (split c s) = Some (last (split c s))"
  by (simp add: pop_def split_not_Nil)

lemma index_last_split: "index (split c s) (int (length (split c s)) - 1) = Some (last (split c s))"
proof -
  have "split c s \<noteq> []" by (rule split_not_Nil)
  then have "0 < length (split c s)" by simp
  then show ?thesis
    by (simp add: index_def last_conv_nth nat_diff_distrib' of_nat_diff)
qed

lemma repository_calls_simps:
  "repository_calls [] = []"
  "repository_calls (c # cs) = (if repository_call c then c # repository_calls cs else repository_calls cs)"
  "repository_calls (xs @ ys) = repository_calls xs @ repository_calls ys"
  by (simp_all add: repository_calls_def)

lemma getSignedUrl_run:
  "getSignedUrl E cfg fileName s =
     (case fileName of
        None \<Rightarrow> (Inr None, s)
      | Some name \<Rightarrow>
          if name = [] then (Inr None, s)
          else
            (let sign = minio_presignedGetObject E (MINIO_BUCKET cfg) name 604800 (world s);
                 s' = \<lparr>world = snd sign, trace = trace s @ [PresignedGetObject (MINIO_BUCKET cfg) name 604800]\<rparr>
             in case fst sign of
                  Inr u \<Rightarrow> (Inr (Some u), s')
                | Inl e \<Rightarrow>
                    if e = Nullish then (Inl TypeError, s')
                    else (Inr None, s'\<lparr>trace := trace s' @ [Console ConsoleError]\<rparr>)))"
  by (simp add: getSignedUrl_def run Let_def bucketName_def split: option.splits sum.splits)

lemma resolveImage_result:
  "\<exists>s'. resolveImage warn E cfg product s = (Inr (resolved E cfg (world s) product), s')
        \<and> world s' = signing_world E cfg (world s) product
        \<and> repository_calls (trace s') = repository_calls (trace s)
        \<and> prefix (trace s) (trace s')"
proof (cases "productEntity.imageUrl product")
  case Absent
  then show ?thesis
    by (simp add: resolveImage_def resolved_def signing_world_def ret_run)
next
  case Null
  then show ?thesis
    by (simp add: resolveImage_def resolved_def signing_world_def ret_run)
next
  case (Value url)
  show ?thesis
  proof (cases "url = [] \<or> last (split CHR ''/'' url) = []")
    case True
    with Value show ?thesis
      by (auto simp: resolveImage_def resolved_def signed_image_def signing_world_def run Let_def
            pop_split getSignedUrl_run)
  next
    case False
    with Value show ?thesis
      by (cases "fst (minio_presignedGetObject E (MINIO_BUCKET cfg) (last (split CHR ''/'' url)) 604800 (world s))")
         (auto simp: resolveImage_def resolved_def signed_image_def signing_world_def run Let_def
            pop_split getSignedUrl_run bucketName_def repository_calls_simps)
  qed
qed

lemma resolveImage_run:
  "\<exists>s'. resolveImage warn E cfg product s = (Inr (resolved E cfg (world s) product), s')"
  using resolveImage_result [of warn E cfg product s] by blast

lemma resolveImage_repository_calls_result:
  "resolveImage warn E cfg product s = (r, s') \<Longrightarrow>
     repository_calls (trace s') = repository_calls (trace s)"
  using resolveImage_result [of warn E cfg product s] by auto

lemma resolveImage_trace_result:
  "resolveImage warn E cfg product s = (r, s') \<Longrightarrow> prefix (trace s) (trace s')"
  using resolveImage_result [of warn E cfg product s] by auto

lemma resolveImage_world_result:
  "resolveImage warn E cfg product s = (r, s') \<Longrightarrow> world s' = signing_world E cfg (world s) product"
  using resolveImage_result [of warn E cfg product s] by auto

lemma uploadProductImage_run:
  "uploadProductImage E cfg file productId s =
     (let key = image_key E productId (date_now E (world s));
          put = minio_putObject E (MINIO_BUCKET cfg) key file (length file)
                  [(''Content-Type'', ''image/jpeg'')] (world s);
          s' = \<lparr>world = snd put, trace = trace s @ [put_image cfg file key]\<rparr>
      in case fst put of
           Inl e \<Rightarrow> (Inl e, s')
         | Inr u \<Rightarrow> (Inr (image_url E cfg key), s'))"
  by (simp add: uploadProductImage_def dateNow_def run Let_def image_key_def image_url_def
        put_image_def bucketName_def split: sum.splits)

lemma deleteFile_run:
  "deleteFile E cfg k s =
     (let del = minio_removeObject E (MINIO_BUCKET cfg) k (world s)
      in case fst del of
           Inl e \<Rightarrow>
             if e = Nullish
             then (Inl TypeError, \<lparr>world = snd del, trace = trace s @ [RemoveObject (MINIO_BUCKET cfg) k]\<rparr>)
             else (Inl e, \<lparr>world = snd del,
                            trace = trace s @ [RemoveObject (MINIO_BUCKET cfg) k, Console ConsoleError]\<rparr>)
         | Inr u \<Rightarrow> (Inr (), \<lparr>world = snd del, trace = trace s @ [RemoveObject (MINIO_BUCKET cfg) k]\<rparr>))"
  by (simp add: deleteFile_def run Let_def bucketName_def split: sum.splits)

lemma deleteOldImage_run:
  "deleteOldImage E cfg url s =
     (let k = Some (last (split CHR ''/'' url));
          del = minio_removeObject E (MINIO_BUCKET cfg) k (world s)
      in (Inr (),
          \<lparr>world = snd del,
           trace = trace s @
             (case fst del of
                Inl e \<Rightarrow>
                  if e = Nullish then [RemoveObject (MINIO_BUCKET cfg) k, Console ConsoleWarn]
                  else [RemoveObject (MINIO_BUCKET cfg) k, Console ConsoleError, Console ConsoleWarn]
              | Inr u \<Rightarrow> [RemoveObject (MINIO_BUCKET cfg) k])\<rparr>))"
  by (simp add: deleteOldImage_def deleteFile_run run Let_def index_last_split split: sum.splits)

lemma deleteOldImage_never_throws: "fst (deleteOldImage E cfg url s) = Inr ()"
  by (simp add: deleteOldImage_run Let_def)

lemma prefix_drop_last: "prefix (xs @ [a, b]) ys \<Longrightarrow> prefix (xs @ [a]) ys"
  using append_prefixD [of "xs @ [a]" "[b]" ys] by simp

lemma resolved_more: "productEntity.more (resolved E cfg w product) = productEntity.more product"
  by (simp add: resolved_def split: field.splits)

lemmas memory_defs =
  memory_externals_def memory_findAll_def memory_findById_def memory_create_def memory_update_def
  memory_softDelete_def memory_putObject_def memory_presignedGetObject_def memory_removeObject_def
  set_row_def state0_def memory0_def row1_def row2_def config0_def

lemma memory_row1_live:
  "fst (repo_findById memory_externals 1 (world state0)) = Inr (Some row1) \<and> \<not> truthy_bool (isDeleted row1)"
  by (simp add: memory_defs)

lemma map_of_soft_deleted:
  "case map_of (map (\<lambda>(k, v). if k = i then (k, v\<lparr>isDeleted := Value True\<rparr>) else (k, v)) rs) i of
     None \<Rightarrow> True
   | Some p \<Rightarrow> truthy_bool (isDeleted p)"
  by (induction rs) (auto split: option.splits)

lemma memory_soft_delete_contract: "soft_delete_contract memory_externals"
  unfolding soft_delete_contract_def
  using map_of_soft_deleted
  by (auto simp: memory_externals_def memory_softDelete_def memory_findById_def)

lemmas eval_defs = memory_defs Let_def image_key_def image_url_def template_string_def
  template_number_def number_string_def MAX_SAFE_INTEGER_def string_of_int_def string_of_nat.simps
  digit_def

lemma uploadImage_memory_ok:
  "fst (uploadImage memory_externals config0 1 (Some png) state0)
     = Inr (row1\<lparr>productEntity.imageUrl := Value ''signed/product-1-1700000000000.jpg'', isDeleted := Absent\<rparr>)"
  by (simp add: uploadImage_def run deleteOldImage_run uploadProductImage_run resolveImage_def
        getSignedUrl_def pop_def productData_def put_image_def bucketName_def eval_defs png_def)

lemma uploadImage_memory_down:
  "fst (uploadImage memory_externals config0 1 (Some png) state_down) = Inl InternalServerErrorException"
  by (simp add: uploadImage_def run deleteOldImage_run uploadProductImage_run resolveImage_def
        getSignedUrl_def pop_def productData_def put_image_def bucketName_def eval_defs png_def state_down_def)

lemma resolve_and_strip:
  "\<exists>s'. bind (resolveImage warn E cfg product) (\<lambda>product. ret (productData product)) s
         = (Inr (productData (resolved E cfg (world s) product)), s')
       \<and> repository_calls (trace s') = repository_calls (trace s)"
proof -
  obtain s' where r: "resolveImage warn E cfg product s = (Inr (resolved E cfg (world s) product), s')"
    using resolveImage_run by blast
  then have "repository_calls (trace s') = repository_calls (trace s)"
    by (rule resolveImage_repository_calls_result)
  with r show ?thesis
    by (simp add: run)
qed

lemma promise_all_map_resolve:
  "\<exists>rs s'. promise_all_map
              (\<lambda>product. bind (resolveImage warn E cfg product) (\<lambda>product. ret (productData product)))
              ps s = (Inr rs, s')
     \<and> repository_calls (trace s') = repository_calls (trace s)
     \<and> length rs = length ps
     \<and> (\<forall>i < length ps. \<exists>w. rs ! i = productData (resolved E cfg w (ps ! i)))"
proof (induction ps arbitrary: s)
  case Nil
  show ?case by (simp add: run)
next
  case (Cons p ps)
  let ?f = "\<lambda>product. bind (resolveImage warn E cfg product) (\<lambda>product. ret (productData product))"
  obtain s1 where first: "?f p s = (Inr (productData (resolved E cfg (world s) p)), s1)"
    and c1: "repository_calls (trace s1) = repository_calls (trace s)"
    using resolve_and_strip [of warn E cfg p s] by blast
  obtain rs s2 where rest: "promise_all_map ?f ps s1 = (Inr rs, s2)"
    and c2: "repository_calls (trace s2) = repository_calls (trace s1)"
    and len: "length rs = length ps"
    and each: "\<forall>i < length ps. \<exists>w. rs ! i = productData (resolved E cfg w (ps ! i))"
    using Cons.IH [of s1] by blast
  have run_all: "promise_all_map ?f (p # ps) s = (Inr (productData (resolved E cfg (world s) p) # rs), s2)"
    using first rest by (simp add: bind_run ret_run)
  have "\<exists>w. (productData (resolved E cfg (world s) p) # rs) ! i = productData (resolved E cfg w ((p # ps) ! i))"
    if "i < length (p # ps)" for i
  proof (cases i)
    case 0
    then show ?thesis by auto
  next
    case (Suc j)
    with that each show ?thesis by simp
  qed
  with run_all c1 c2 len show ?case
    by simp
qed

lemma findAll_run:
  "findAll E cfg filters s
     = (let filters' = (if includeDeleted filters = None then filters\<lparr>includeDeleted := Some False\<rparr>
                        else filters);
            s1 = \<lparr>world = snd (repo_findAll E filters' (world s)), trace = trace s @ [RepoFindAll filters']\<rparr>
        in case fst (repo_findAll E filters' (world s)) of
             Inl e \<Rightarrow> (Inl e, s1)
           | Inr ps \<Rightarrow>
               promise_all_map
                 (\<lambda>product. bind (resolveImage True E cfg product) (\<lambda>product. ret (productData product)))
                 ps s1)"
  by (simp add: findAll_def run Let_def split: sum.splits)

lemma update_run:
  assumes "fst (repo_findById E ident (world s)) = Inr (Some p)"
    and "\<not> truthy_bool (isDeleted p)"
  shows "applies_patch E cfg ident s
           (case updateProductDto.stockQuantity patch of
              Some q \<Rightarrow> patch\<lparr>updateProductDto.inStock := Some (0 < q)\<rparr>
            | None \<Rightarrow> patch)
           (update E cfg ident patch s)"
proof -
  let ?patch = "case updateProductDto.stockQuantity patch of
                  Some q \<Rightarrow> patch\<lparr>updateProductDto.inStock := Some (0 < q)\<rparr>
                | None \<Rightarrow> patch"
  let ?upd = "repo_update E ident ?patch (snd (repo_findById E ident (world s)))"
  let ?s2 = "\<lparr>world = snd ?upd, trace = trace s @ [RepoFindById ident, RepoUpdate ident ?patch]\<rparr>"
  show ?thesis
  proof (cases "fst ?upd")
    case (Inl e)
    with assms show ?thesis
      by (simp add: applies_patch_def update_def run Let_def repository_calls_simps)
  next
    case (Inr updated)
    obtain s' where r: "resolveImage False E cfg updated ?s2 = (Inr (resolved E cfg (world ?s2) updated), s')"
      and w: "world s' = signing_world E cfg (world ?s2) updated"
      and c: "repository_calls (trace s') = repository_calls (trace ?s2)"
      using resolveImage_result [of False E cfg updated ?s2] by blast
    have "update E cfg ident patch s = (Inr (productData (resolved E cfg (snd ?upd) updated)), s')"
      using assms Inr r by (simp add: update_def run Let_def)
    with Inr w c show ?thesis
      by (simp add: applies_patch_def Let_def repository_calls_simps)
  qed
qed

lemmas service_defs = run resolveImage_def getSignedUrl_def pop_def productData_def bucketName_def
  deleteOldImage_run uploadProductImage_run put_image_def

lemma findById_memory: "fst (findById memory_externals config0 1 state0) = Inr row1_signed"
  by (simp add: findById_def service_defs eval_defs row1_signed_def)

lemma create_memory:
  "fst (create memory_externals widget state0)
     = Inr \<lparr>productEntity.imageUrl = Null, isDeleted = Absent, row_id = 3,
            row_stockQuantity = Some 0, row_inStock = Some False\<rparr>"
  by (simp add: create_def service_defs eval_defs widget_def)

lemma update_memory:
  "fst (update memory_externals config0 1 patch0 state0)
     = Inr (row1_signed\<lparr>row_stockQuantity := Some 5, row_inStock := Some True\<rparr>)"
  by (simp add: update_def service_defs eval_defs patch0_def row1_signed_def)

lemma findAll_memory:
  "fst (findAll memory_externals config0 no_filters state0) = Inr [row1_signed]"
  by (simp add: findAll_def service_defs eval_defs no_filters_def row1_signed_def)

lemma findAll_memory_with_deleted:
  "fst (findAll memory_externals config0 with_deleted state0)
     = Inr [row1_signed, row2\<lparr>isDeleted := Absent\<rparr>]"
  by (simp add: findAll_def service_defs eval_defs with_deleted_def row1_signed_def)

lemmas rule_defs = resolved_def signed_image_def productData_def bucketName_def

section \<open>Errors of \<open>findById\<close> and \<open>update\<close>\<close>

text \<open>
  Claim C1, as the specification states it, says that \<^verbatim>\<open>findById\<close> and \<^verbatim>\<open>update\<close> fail
  with NotFound both for an id without a record and for a soft-deleted id. The source of
  \<^verbatim>\<open>update\<close> has a guard of its own for the soft-deleted record, which raises
  \<^verbatim>\<open>BadRequestException\<close> with the message ``a deleted product cannot be updated''. In
  the in-memory repository row 2 is soft-deleted, and updating it is a bad request, not
  NotFound.
\<close>

theorem update_soft_deleted_is_bad_request:
  "fst (repo_findById memory_externals 2 (world state0)) = Inr (Some row2)
   \<and> truthy_bool (isDeleted row2)
   \<and> fst (update memory_externals config0 2 patch0 state0) = Inl (BadRequestException UpdateDeleted)
   \<and> fst (update memory_externals config0 2 patch0 state0) \<noteq> Inl (NotFoundException 2)"
  by (simp add: update_def run memory_defs patch0_def)

text \<open>
  Claim C1, amended: for every id, when the repository has no record both \<^verbatim>\<open>findById\<close>
  and \<^verbatim>\<open>update\<close> fail with NotFound for that id; when the record is soft-deleted
  \<^verbatim>\<open>findById\<close> fails with NotFound and \<^verbatim>\<open>update\<close> fails with the validation error
  ``a deleted product cannot be updated''.
\<close>

theorem findById_update_missing_or_deleted:
  "(fst (repo_findById E ident (world s)) = Inr None \<longrightarrow>
      fst (findById E cfg ident s) = Inl (NotFoundException ident)
      \<and> fst (update E cfg ident patch s) = Inl (NotFoundException ident))
   \<and> (fst (repo_findById E ident (world s)) = Inr (Some p) \<and> truthy_bool (isDeleted p) \<longrightarrow>
      fst (findById E cfg ident s) = Inl (NotFoundException ident)
      \<and> fst (update E cfg ident patch s) = Inl (BadRequestException UpdateDeleted))"
  by (simp add: findById_def update_def run)

theorem findById_update_missing_or_deleted_witness:
  "fst (findById memory_externals config0 7 state0) = Inl (NotFoundException 7)
   \<and> fst (update memory_externals config0 7 patch0 state0) = Inl (NotFoundException 7)
   \<and> fst (findById memory_externals config0 2 state0) = Inl (NotFoundException 2)
   \<and> fst (update memory_externals config0 2 patch0 state0) = Inl (BadRequestException UpdateDeleted)"
proof -
  have absent: "fst (repo_findById memory_externals 7 (world state0)) = Inr None"
    by (simp add: memory_defs)
  have deleted: "fst (repo_findById memory_externals 2 (world state0)) = Inr (Some row2)
      \<and> truthy_bool (isDeleted row2)"
    by (simp add: memory_defs)
  show ?thesis
    using findById_update_missing_or_deleted [of memory_externals 7 state0 config0 patch0 row2] absent
      findById_update_missing_or_deleted [of memory_externals 2 state0 config0 patch0 row2] deleted
    by simp
qed

section \<open>The stock rule of \<open>create\<close>\<close>

text \<open>
  Claim C2: for every create input, when \<^verbatim>\<open>stockQuantity\<close> is exactly 0 the object handed
  to the repository is the input with \<^verbatim>\<open>inStock\<close> set to false, whatever the caller
  supplied; when \<^verbatim>\<open>stockQuantity\<close> is another number or missing, the input is handed
  over as it is, so \<^verbatim>\<open>inStock\<close> is not forced to true. In both cases this is the only
  call \<^verbatim>\<open>create\<close> makes, and the world afterwards is the one the repository's
  \<^verbatim>\<open>create\<close> leaves for that argument.
\<close>

theorem create_zero_stock_forces_out_of_stock:
  "(createProductDto.stockQuantity dto = Some 0 \<longrightarrow>
      trace (snd (create E dto s)) = trace s @ [RepoCreate (dto\<lparr>createProductDto.inStock := Some False\<rparr>)]
      \<and> world (snd (create E dto s))
          = snd (repo_create E (dto\<lparr>createProductDto.inStock := Some False\<rparr>) (world s)))
   \<and> (createProductDto.stockQuantity dto \<noteq> Some 0 \<longrightarrow>
      trace (snd (create E dto s)) = trace s @ [RepoCreate dto]
      \<and> world (snd (create E dto s)) = snd (repo_create E dto (world s)))"
  by (auto simp: create_def run Let_def split: sum.splits)

theorem create_zero_stock_forces_out_of_stock_witness:
  "trace (snd (create memory_externals widget state0))
     = [RepoCreate (widget\<lparr>createProductDto.inStock := Some False\<rparr>)]
   \<and> map (row_inStock \<circ> snd) (rows (world (snd (create memory_externals widget state0))))
     = [Some True, Some False, Some False]
   \<and> trace (snd (create memory_externals gadget state0)) = [RepoCreate gadget]
   \<and> map (row_inStock \<circ> snd) (rows (world (snd (create memory_externals gadget state0))))
     = [Some True, Some False, Some False]"
proof -
  have zero: "createProductDto.stockQuantity widget = Some 0"
    by (simp add: widget_def)
  have five: "createProductDto.stockQuantity gadget \<noteq> Some 0"
    by (simp add: gadget_def)
  have w: "trace (snd (create memory_externals widget state0))
        = trace state0 @ [RepoCreate (widget\<lparr>createProductDto.inStock := Some False\<rparr>)]
      \<and> world (snd (create memory_externals widget state0))
        = snd (repo_create memory_externals (widget\<lparr>createProductDto.inStock := Some False\<rparr>) (world state0))"
    using create_zero_stock_forces_out_of_stock [of widget memory_externals state0] zero by blast
  have g: "trace (snd (create memory_externals gadget state0)) = trace state0 @ [RepoCreate gadget]
      \<and> world (snd (create memory_externals gadget state0))
        = snd (repo_create memory_externals gadget (world state0))"
    using create_zero_stock_forces_out_of_stock [of gadget memory_externals state0] five by blast
  show ?thesis
    unfolding w [THEN conjunct1] w [THEN conjunct2] g [THEN conjunct1] g [THEN conjunct2]
    by (simp add: memory_defs widget_def gadget_def Let_def)
qed

section \<open>The stock rule of \<open>update\<close>\<close>

text \<open>
  Claim C3: for every \<^verbatim>\<open>update(id, patch)\<close> on an existing product that is not soft-deleted, the
  service applies a patch via the repository (\<open>applies_patch\<close>): its repository calls are the
  lookup followed by exactly one \<^verbatim>\<open>update\<close>, the world it leaves is the one that repository
  update has produced, and the product it returns is the one that update returned. When the
  caller's patch sets \<^verbatim>\<open>stockQuantity\<close> to \<open>q\<close>, the patch applied is the caller's with
  \<^verbatim>\<open>inStock\<close> set to \<open>0 < q\<close> (true for a positive stock, false otherwise, whatever the
  caller supplied); when the caller's patch does not set \<^verbatim>\<open>stockQuantity\<close>, the patch applied
  is the caller's, unchanged.
\<close>

theorem update_recomputes_inStock:
  assumes "fst (repo_findById E ident (world s)) = Inr (Some p)"
    and "\<not> truthy_bool (isDeleted p)"
  shows "(updateProductDto.stockQuantity patch = Some q \<longrightarrow>
            applies_patch E cfg ident s (patch\<lparr>updateProductDto.inStock := Some (0 < q)\<rparr>)
              (update E cfg ident patch s))
       \<and> (updateProductDto.stockQuantity patch = None \<longrightarrow>
            applies_patch E cfg ident s patch (update E cfg ident patch s))"
  using update_run [OF assms, of cfg patch] by auto

theorem update_recomputes_inStock_witness:
  "repository_calls (trace (snd (update memory_externals config0 1 patch0 state0)))
     = [RepoFindById 1, RepoUpdate 1 (patch0\<lparr>updateProductDto.inStock := Some True\<rparr>)]
   \<and> world (snd (update memory_externals config0 1 patch0 state0))
     = memory0\<lparr>rows := [(1, row1\<lparr>row_stockQuantity := Some 5, row_inStock := Some True\<rparr>), (2, row2)]\<rparr>
   \<and> repository_calls (trace (snd (update memory_externals config0 1 sold_out state0)))
     = [RepoFindById 1, RepoUpdate 1 (sold_out\<lparr>updateProductDto.inStock := Some False\<rparr>)]
   \<and> world (snd (update memory_externals config0 1 sold_out state0))
     = memory0\<lparr>rows := [(1, row1\<lparr>row_stockQuantity := Some 0, row_inStock := Some False\<rparr>), (2, row2)]\<rparr>
   \<and> repository_calls (trace (snd (update memory_externals config0 1 rename state0)))
     = [RepoFindById 1, RepoUpdate 1 rename]
   \<and> world (snd (update memory_externals config0 1 rename state0))
     = memory0\<lparr>rows := [(1, row1\<lparr>row_inStock := Some False\<rparr>), (2, row2)]\<rparr>
   \<and> fst (update memory_externals config0 1 patch0 state0)
     = Inr (row1_signed\<lparr>row_stockQuantity := Some 5, row_inStock := Some True\<rparr>)"
proof -
  note live = memory_row1_live
  have a: "applies_patch memory_externals config0 1 state0
             (patch0\<lparr>updateProductDto.inStock := Some (0 < (5::int))\<rparr>)
             (update memory_externals config0 1 patch0 state0)"
    using update_recomputes_inStock [of memory_externals 1 state0 row1 patch0 5 config0] live
    by (simp add: patch0_def)
  have b: "applies_patch memory_externals config0 1 state0
             (sold_out\<lparr>updateProductDto.inStock := Some (0 < (0::int))\<rparr>)
             (update memory_externals config0 1 sold_out state0)"
    using update_recomputes_inStock [of memory_externals 1 state0 row1 sold_out 0 config0] live
    by (simp add: sold_out_def)
  have c: "applies_patch memory_externals config0 1 state0 rename
             (update memory_externals config0 1 rename state0)"
    using update_recomputes_inStock [of memory_externals 1 state0 row1 rename 0 config0] live
    by (simp add: rename_def)
  have a': "repository_calls (trace (snd (update memory_externals config0 1 patch0 state0)))
       = [RepoFindById 1, RepoUpdate 1 (patch0\<lparr>updateProductDto.inStock := Some True\<rparr>)]
     \<and> world (snd (update memory_externals config0 1 patch0 state0))
       = memory0\<lparr>rows := [(1, row1\<lparr>row_stockQuantity := Some 5, row_inStock := Some True\<rparr>), (2, row2)]\<rparr>
     \<and> fst (update memory_externals config0 1 patch0 state0)
       = Inr (row1_signed\<lparr>row_stockQuantity := Some 5, row_inStock := Some True\<rparr>)"
    using a
    by (simp add: applies_patch_def eval_defs rule_defs signing_world_def repository_calls_simps
          patch0_def row1_signed_def)
  have b': "repository_calls (trace (snd (update memory_externals config0 1 sold_out state0)))
       = [RepoFindById 1, RepoUpdate 1 (sold_out\<lparr>updateProductDto.inStock := Some False\<rparr>)]
     \<and> world (snd (update memory_externals config0 1 sold_out state0))
       = memory0\<lparr>rows := [(1, row1\<lparr>row_stockQuantity := Some 0, row_inStock := Some False\<rparr>), (2, row2)]\<rparr>"
    using b
    by (simp add: applies_patch_def eval_defs rule_defs signing_world_def repository_calls_simps
          sold_out_def)
  have c': "repository_calls (trace (snd (update memory_externals config0 1 rename state0)))
       = [RepoFindById 1, RepoUpdate 1 rename]
     \<and> world (snd (update memory_externals config0 1 rename state0))
       = memory0\<lparr>rows := [(1, row1\<lparr>row_inStock := Some False\<rparr>), (2, row2)]\<rparr>"
    using c
    by (simp add: applies_patch_def eval_defs rule_defs signing_world_def repository_calls_simps
          rename_def)
  show ?thesis
    using a' b' c' by blast
qed

section \<open>\<open>remove\<close> on a missing or deleted product\<close>

text \<open>
  Claim C6: for every id, when the repository has no record or the record is soft-deleted,
  \<^verbatim>\<open>remove\<close> fails with NotFound, and the only call it has made is the lookup (no
  \<^verbatim>\<open>softDelete\<close>): the world is the one the lookup left. Hence, for collaborators that
  keep the soft-delete contract, after a successful \<^verbatim>\<open>remove(id)\<close> a second
  \<^verbatim>\<open>remove(id)\<close> fails with NotFound and leaves the world unchanged; only the lookup is
  added to the trace.
\<close>

theorem remove_twice_not_found:
  "((fst (repo_findById E ident (world s)) = Inr None
      \<or> fst (repo_findById E ident (world s)) = Inr (Some p) \<and> truthy_bool (isDeleted p)) \<longrightarrow>
      remove E ident s
        = (Inl (NotFoundException ident),
           \<lparr>world = snd (repo_findById E ident (world s)), trace = trace s @ [RepoFindById ident]\<rparr>))
   \<and> (soft_delete_contract E \<and> remove E ident s = (Inr (), s1) \<longrightarrow>
        remove E ident s1 = (Inl (NotFoundException ident), s1\<lparr>trace := trace s1 @ [RepoFindById ident]\<rparr>))"
proof (intro conjI impI)
  assume "fst (repo_findById E ident (world s)) = Inr None
      \<or> fst (repo_findById E ident (world s)) = Inr (Some p) \<and> truthy_bool (isDeleted p)"
  then show "remove E ident s
        = (Inl (NotFoundException ident),
           \<lparr>world = snd (repo_findById E ident (world s)), trace = trace s @ [RepoFindById ident]\<rparr>)"
    by (auto simp: remove_def run)
next
  assume a: "soft_delete_contract E \<and> remove E ident s = (Inr (), s1)"
  define w where "w = snd (repo_findById E ident (world s))"
  from a have "fst (repo_softDelete E ident w) = Inr () \<and> snd (repo_softDelete E ident w) = world s1"
    by (auto simp: remove_def run w_def split: sum.splits option.splits if_splits)
  then have "repo_softDelete E ident w = (Inr (), world s1)"
    by (simp add: prod_eq_iff)
  with a obtain found where f: "repo_findById E ident (world s1) = (Inr found, world s1)"
      "case found of None \<Rightarrow> True | Some p \<Rightarrow> truthy_bool (isDeleted p)"
    unfolding soft_delete_contract_def by blast
  then show "remove E ident s1 = (Inl (NotFoundException ident), s1\<lparr>trace := trace s1 @ [RepoFindById ident]\<rparr>)"
    by (auto simp: remove_def run split: option.splits)
qed

theorem remove_twice_not_found_witness:
  "remove memory_externals 7 state0
     = (Inl (NotFoundException 7), \<lparr>world = memory0, trace = [RepoFindById 7]\<rparr>)
   \<and> remove memory_externals 2 state0
     = (Inl (NotFoundException 2), \<lparr>world = memory0, trace = [RepoFindById 2]\<rparr>)
   \<and> fst (remove memory_externals 1 state0) = Inr ()
   \<and> remove memory_externals 1 (snd (remove memory_externals 1 state0))
     = (Inl (NotFoundException 1),
        (snd (remove memory_externals 1 state0))
          \<lparr>trace := [RepoFindById 1, RepoSoftDelete 1, RepoFindById 1]\<rparr>)"
proof -
  have absent: "fst (repo_findById memory_externals 7 (world state0)) = Inr None"
    by (simp add: memory_defs)
  have deleted: "fst (repo_findById memory_externals 2 (world state0)) = Inr (Some row2)
      \<and> truthy_bool (isDeleted row2)"
    by (simp add: memory_defs)
  have ok: "fst (remove memory_externals 1 state0) = Inr ()"
    by (simp add: remove_def run memory_defs)
  then have first: "remove memory_externals 1 state0 = (Inr (), snd (remove memory_externals 1 state0))"
    by (simp add: prod_eq_iff)
  have tr: "trace (snd (remove memory_externals 1 state0)) = [RepoFindById 1, RepoSoftDelete 1]"
    by (simp add: remove_def run memory_defs)
  have a: "remove memory_externals 7 state0
     = (Inl (NotFoundException 7),
        \<lparr>world = snd (repo_findById memory_externals 7 (world state0)), trace = trace state0 @ [RepoFindById 7]\<rparr>)"
    using remove_twice_not_found [of memory_externals 7 state0 row2 state0] absent by blast
  have b: "remove memory_externals 2 state0
     = (Inl (NotFoundException 2),
        \<lparr>world = snd (repo_findById memory_externals 2 (world state0)), trace = trace state0 @ [RepoFindById 2]\<rparr>)"
    using remove_twice_not_found [of memory_externals 2 state0 row2 state0] deleted by blast
  have c: "remove memory_externals 1 (snd (remove memory_externals 1 state0))
     = (Inl (NotFoundException 1),
        (snd (remove memory_externals 1 state0))
          \<lparr>trace := trace (snd (remove memory_externals 1 state0)) @ [RepoFindById 1]\<rparr>)"
    using remove_twice_not_found [of memory_externals 1 state0 row2 "snd (remove memory_externals 1 state0)"]
      memory_soft_delete_contract first by blast
  show ?thesis
    unfolding a b c tr ok by (simp add: memory_defs)
qed

section \<open>Key and URL of an uploaded image\<close>

text \<open>
  Claim C9: for every \<^verbatim>\<open>uploadProductImage(bytes, productId)\<close>, the one call made is \<^verbatim>\<open>putObject\<close> with the key
  \<^verbatim>\<open>product-<productId>-<millis>.jpg\<close> (the clock read at the call), the bytes, their length and
  the fixed header \<^verbatim>\<open>Content-Type: image/jpeg\<close>, whatever the bytes are, and the world after the
  call is the one \<^verbatim>\<open>putObject\<close> has left: the object is stored by the store, under that key.
  When the store accepts the object the result is the URL built from the configuration and
  the key (\<^verbatim>\<open>https\<close> exactly when the TLS flag is the string \<^verbatim>\<open>true\<close>); nothing is asked
  of the store for it. When the store throws, the error reaches the caller. The id and the
  clock appear in the key as JavaScript prints a number: in plain decimal for every safe
  integer (an id parsed from the route and the milliseconds of the clock are such), and as
  the engine prints it beyond; the same holds of the port in the URL.
\<close>

theorem uploadProductImage_key_and_url:
  "(let key = image_key E productId (date_now E (world s));
        put = minio_putObject E (MINIO_BUCKET cfg) key bytes (length bytes)
                [(''Content-Type'', ''image/jpeg'')] (world s)
    in uploadProductImage E cfg bytes productId s
         = (case fst put of Inl e \<Rightarrow> Inl e | Inr u \<Rightarrow> Inr (image_url E cfg key),
            \<lparr>world = snd put,
             trace = trace s @ [PutObject (MINIO_BUCKET cfg) key bytes (length bytes)
                                  [(''Content-Type'', ''image/jpeg'')]]\<rparr>))
   \<and> image_key E productId millis
       = ''product-'' @ number_string E productId @ ''-'' @ number_string E (int millis) @ ''.jpg''
   \<and> (abs productId \<le> MAX_SAFE_INTEGER \<and> int millis \<le> MAX_SAFE_INTEGER \<longrightarrow>
        image_key E productId millis
          = ''product-'' @ string_of_int productId @ ''-'' @ string_of_nat millis @ ''.jpg'')
   \<and> image_url E cfg key
       = (if MINIO_USE_SSL cfg = Some ''true'' then ''https'' else ''http'') @ ''://''
           @ template_string (MINIO_ENDPOINT cfg) @ '':'' @ template_number E (MINIO_PORT cfg)
           @ ''/'' @ template_string (MINIO_BUCKET cfg) @ ''/'' @ key
   \<and> (MINIO_PORT cfg = Some port \<and> abs port \<le> MAX_SAFE_INTEGER \<longrightarrow>
        template_number E (MINIO_PORT cfg) = string_of_int port)"
proof (intro conjI impI)
  show "let key = image_key E productId (date_now E (world s));
        put = minio_putObject E (MINIO_BUCKET cfg) key bytes (length bytes)
                [(''Content-Type'', ''image/jpeg'')] (world s)
    in uploadProductImage E cfg bytes productId s
         = (case fst put of Inl e \<Rightarrow> Inl e | Inr u \<Rightarrow> Inr (image_url E cfg key),
            \<lparr>world = snd put,
             trace = trace s @ [PutObject (MINIO_BUCKET cfg) key bytes (length bytes)
                                  [(''Content-Type'', ''image/jpeg'')]]\<rparr>)"
    by (simp add: uploadProductImage_run Let_def put_image_def split: sum.splits)
next
  show "image_key E productId millis
       = ''product-'' @ number_string E productId @ ''-'' @ number_string E (int millis) @ ''.jpg''"
    by (simp add: image_key_def)
next
  assume "abs productId \<le> MAX_SAFE_INTEGER \<and> int millis \<le> MAX_SAFE_INTEGER"
  then show "image_key E productId millis
          = ''product-'' @ string_of_int productId @ ''-'' @ string_of_nat millis @ ''.jpg''"
    by (simp add: image_key_def number_string_def string_of_int_def)
next
  show "image_url E cfg key
       = (if MINIO_USE_SSL cfg = Some ''true'' then ''https'' else ''http'') @ ''://''
           @ template_string (MINIO_ENDPOINT cfg) @ '':'' @ template_number E (MINIO_PORT cfg)
           @ ''/'' @ template_string (MINIO_BUCKET cfg) @ ''/'' @ key"
    by (simp add: image_url_def)
next
  assume "MINIO_PORT cfg = Some port \<and> abs port \<le> MAX_SAFE_INTEGER"
  then show "template_number E (MINIO_PORT cfg) = string_of_int port"
    by (simp add: template_number_def number_string_def)
qed

theorem uploadProductImage_key_and_url_witness:
  "uploadProductImage memory_externals config0 (buffer png) 5 state0
     = (Inr ''http://localhost:9000/products/product-5-1700000000000.jpg'',
        \<lparr>world = memory0\<lparr>objects := [''product-5-1700000000000.jpg'']\<rparr>,
         trace = [PutObject (Some ''products'') ''product-5-1700000000000.jpg'' [137, 80, 78, 71] 4
                    [(''Content-Type'', ''image/jpeg'')]]\<rparr>)
   \<and> fst (uploadProductImage memory_externals config_tls (buffer png) 5 state0)
     = Inr ''https://cdn.example.org:443/products/product-5-1700000000000.jpg''
   \<and> uploadProductImage memory_externals config0 (buffer png) 5 state_down
     = (Inl (ExternalError ''store unreachable''),
        \<lparr>world = memory0\<lparr>reachable := False\<rparr>,
         trace = [PutObject (Some ''products'') ''product-5-1700000000000.jpg'' [137, 80, 78, 71] 4
                    [(''Content-Type'', ''image/jpeg'')]]\<rparr>)
   \<and> image_key memory_externals 5 1700000000000 = ''product-5-1700000000000.jpg''
   \<and> image_key memory_externals huge 7 = ''product-1e+21-7.jpg''
   \<and> template_number memory_externals (MINIO_PORT config0) = ''9000''"
proof (intro conjI)
  note rule = uploadProductImage_key_and_url [unfolded Let_def]
  have key: "image_key memory_externals 5 (date_now memory_externals (world state0))
      = ''product-5-1700000000000.jpg''"
    by (simp add: eval_defs)
  have key_down: "image_key memory_externals 5 (date_now memory_externals (world state_down))
      = ''product-5-1700000000000.jpg''"
    by (simp add: eval_defs state_down_def)
  have bucket: "MINIO_BUCKET config0 = Some ''products''" "MINIO_BUCKET config_tls = Some ''products''"
    by (simp_all add: config0_def config_tls_def)
  have put: "minio_putObject memory_externals (Some ''products'') ''product-5-1700000000000.jpg''
               (buffer png) (length (buffer png)) [(''Content-Type'', ''image/jpeg'')] (world state0)
             = (Inr (), memory0\<lparr>objects := [''product-5-1700000000000.jpg'']\<rparr>)"
    by (simp add: eval_defs)
  have down: "minio_putObject memory_externals (Some ''products'') ''product-5-1700000000000.jpg''
               (buffer png) (length (buffer png)) [(''Content-Type'', ''image/jpeg'')] (world state_down)
             = (Inl (ExternalError ''store unreachable''), memory0\<lparr>reachable := False\<rparr>)"
    by (simp add: eval_defs state_down_def)
  have url: "image_url memory_externals config0 ''product-5-1700000000000.jpg''
      = ''http://localhost:9000/products/product-5-1700000000000.jpg''"
    by (simp add: eval_defs)
  have url_tls: "image_url memory_externals config_tls ''product-5-1700000000000.jpg''
      = ''https://cdn.example.org:443/products/product-5-1700000000000.jpg''"
    by (simp add: eval_defs config_tls_def)
  have t: "trace state0 = []" "trace state_down = []"
    by (simp_all add: state0_def state_down_def)
  show "uploadProductImage memory_externals config0 (buffer png) 5 state0
     = (Inr ''http://localhost:9000/products/product-5-1700000000000.jpg'',
        \<lparr>world = memory0\<lparr>objects := [''product-5-1700000000000.jpg'']\<rparr>,
         trace = [PutObject (Some ''products'') ''product-5-1700000000000.jpg'' [137, 80, 78, 71] 4
                    [(''Content-Type'', ''image/jpeg'')]]\<rparr>)"
    using rule [where E = memory_externals and productId = 5 and s = state0 and cfg = config0 and bytes = "buffer png", THEN conjunct1]
    unfolding key bucket put url t by (simp add: png_def)
  show "fst (uploadProductImage memory_externals config_tls (buffer png) 5 state0)
     = Inr ''https://cdn.example.org:443/products/product-5-1700000000000.jpg''"
    using rule [where E = memory_externals and productId = 5 and s = state0 and cfg = config_tls and bytes = "buffer png", THEN conjunct1]
    unfolding key bucket put url_tls t by (simp add: png_def)
  show "uploadProductImage memory_externals config0 (buffer png) 5 state_down
     = (Inl (ExternalError ''store unreachable''),
        \<lparr>world = memory0\<lparr>reachable := False\<rparr>,
         trace = [PutObject (Some ''products'') ''product-5-1700000000000.jpg'' [137, 80, 78, 71] 4
                    [(''Content-Type'', ''image/jpeg'')]]\<rparr>)"
    using rule [where E = memory_externals and productId = 5 and s = state_down and cfg = config0 and bytes = "buffer png", THEN conjunct1]
    unfolding key_down bucket down t by (simp add: png_def)
  have safe: "abs (5::int) \<le> MAX_SAFE_INTEGER \<and> int 1700000000000 \<le> MAX_SAFE_INTEGER"
    by (simp add: MAX_SAFE_INTEGER_def)
  have "image_key memory_externals 5 1700000000000
      = ''product-'' @ string_of_int 5 @ ''-'' @ string_of_nat 1700000000000 @ ''.jpg''"
    using rule [where E = memory_externals and productId = 5 and millis = 1700000000000] safe by blast
  then show "image_key memory_externals 5 1700000000000 = ''product-5-1700000000000.jpg''"
    by (simp add: string_of_int_def string_of_nat.simps digit_def)
  have "image_key memory_externals huge 7
      = ''product-'' @ number_string memory_externals huge @ ''-'' @ number_string memory_externals (int 7)
          @ ''.jpg''"
    using rule [where E = memory_externals and productId = huge and millis = 7] by blast
  then show "image_key memory_externals huge 7 = ''product-1e+21-7.jpg''"
    by (simp add: huge_def eval_defs engine_toString_def exponent_form_def)
  have port: "MINIO_PORT config0 = Some 9000 \<and> abs (9000::int) \<le> MAX_SAFE_INTEGER"
    by (simp add: config0_def MAX_SAFE_INTEGER_def)
  have "template_number memory_externals (MINIO_PORT config0) = string_of_int 9000"
    using rule [where E = memory_externals and cfg = config0 and port = 9000] port by blast
  then show "template_number memory_externals (MINIO_PORT config0) = ''9000''"
    by (simp add: string_of_int_def string_of_nat.simps digit_def)
qed

section \<open>The checks of \<open>uploadImage\<close> come before the upload sequence\<close>

text \<open>
  Claim C10: in \<^verbatim>\<open>uploadImage\<close> an error of the lookup itself reaches the caller as it
  is; a missing or soft-deleted product gives NotFound, a missing file and a file whose
  MIME type does not start with \<^verbatim>\<open>image/\<close> give their own validation errors, and in these
  three cases nothing but the lookup has been called. Only when all checks pass does the
  delete/upload/persist/resolve sequence run, and then the call either returns a product or
  fails with the generic internal error, the error having been printed last.
\<close>

theorem uploadImage_checks_not_masked:
  "(fst (repo_findById E ident (world s)) = Inl e \<longrightarrow> fst (uploadImage E cfg ident file s) = Inl e)
   \<and> ((fst (repo_findById E ident (world s)) = Inr None
        \<or> fst (repo_findById E ident (world s)) = Inr (Some p) \<and> truthy_bool (isDeleted p)) \<longrightarrow>
       uploadImage E cfg ident file s
         = (Inl (NotFoundException ident),
            \<lparr>world = snd (repo_findById E ident (world s)), trace = trace s @ [RepoFindById ident]\<rparr>))
   \<and> (fst (repo_findById E ident (world s)) = Inr (Some p) \<and> \<not> truthy_bool (isDeleted p) \<longrightarrow>
       (file = None \<longrightarrow>
          uploadImage E cfg ident file s
            = (Inl (BadRequestException FileMissing),
               \<lparr>world = snd (repo_findById E ident (world s)), trace = trace s @ [RepoFindById ident]\<rparr>))
       \<and> (file = Some f \<and> \<not> prefix ''image/'' (mimetype f) \<longrightarrow>
          uploadImage E cfg ident file s
            = (Inl (BadRequestException NotAnImage),
               \<lparr>world = snd (repo_findById E ident (world s)), trace = trace s @ [RepoFindById ident]\<rparr>))
       \<and> (file = Some f \<and> prefix ''image/'' (mimetype f) \<longrightarrow>
          (\<exists>r. fst (uploadImage E cfg ident file s) = Inr r)
          \<or> fst (uploadImage E cfg ident file s) = Inl InternalServerErrorException
             \<and> last (trace (snd (uploadImage E cfg ident file s))) = Console ConsoleError))"
  by (auto simp: uploadImage_def run split: sum.splits prod.splits)

theorem uploadImage_checks_not_masked_witness:
  "fst (uploadImage broken_repository config0 1 (Some png) state0) = Inl (ExternalError ''connection lost'')
   \<and> uploadImage memory_externals config0 7 (Some png) state0
     = (Inl (NotFoundException 7), \<lparr>world = memory0, trace = [RepoFindById 7]\<rparr>)
   \<and> uploadImage memory_externals config0 2 (Some png) state0
     = (Inl (NotFoundException 2), \<lparr>world = memory0, trace = [RepoFindById 2]\<rparr>)
   \<and> uploadImage memory_externals config0 1 (None :: multerFile option) state0
     = (Inl (BadRequestException FileMissing), \<lparr>world = memory0, trace = [RepoFindById 1]\<rparr>)
   \<and> uploadImage memory_externals config0 1 (Some text_file) state0
     = (Inl (BadRequestException NotAnImage), \<lparr>world = memory0, trace = [RepoFindById 1]\<rparr>)
   \<and> fst (uploadImage memory_externals config0 1 (Some png) state0)
     = Inr (row1\<lparr>productEntity.imageUrl := Value ''signed/product-1-1700000000000.jpg'',
                 isDeleted := Absent\<rparr>)
   \<and> fst (uploadImage memory_externals config0 1 (Some png) state_down) = Inl InternalServerErrorException
   \<and> last (trace (snd (uploadImage memory_externals config0 1 (Some png) state_down)))
     = Console ConsoleError"
proof -
  have lost: "fst (repo_findById broken_repository 1 (world state0)) = Inl (ExternalError ''connection lost'')"
    by (simp add: broken_repository_def)
  have absent: "fst (repo_findById memory_externals 7 (world state0)) = Inr None"
    by (simp add: memory_defs)
  have deleted: "fst (repo_findById memory_externals 2 (world state0)) = Inr (Some row2)
      \<and> truthy_bool (isDeleted row2)"
    by (simp add: memory_defs)
  have w: "snd (repo_findById memory_externals i (world state0)) = memory0" for i
    by (simp add: memory_defs)
  have t: "trace state0 = []"
    by (simp add: state0_def)
  have plain: "\<not> prefix ''image/'' (mimetype text_file)"
    by (simp add: text_file_def)
  have img: "prefix ''image/'' (mimetype png)"
    by (simp add: png_def)
  note live = memory_row1_live
  have n1: "fst (uploadImage broken_repository config0 1 (Some png) state0) = Inl (ExternalError ''connection lost'')"
    using uploadImage_checks_not_masked [of broken_repository 1 state0 "ExternalError ''connection lost''" config0 "Some png" row1 png]
      lost by blast
  have n2: "uploadImage memory_externals config0 7 (Some png) state0
     = (Inl (NotFoundException 7), \<lparr>world = memory0, trace = [RepoFindById 7]\<rparr>)"
    using uploadImage_checks_not_masked [of memory_externals 7 state0 "ExternalError []" config0 "Some png" row2 png]
      absent w [of 7] t by simp
  have n3: "uploadImage memory_externals config0 2 (Some png) state0
     = (Inl (NotFoundException 2), \<lparr>world = memory0, trace = [RepoFindById 2]\<rparr>)"
    using uploadImage_checks_not_masked [of memory_externals 2 state0 "ExternalError []" config0 "Some png" row2 png]
      deleted w [of 2] t by simp
  have n4: "uploadImage memory_externals config0 1 (None :: multerFile option) state0
     = (Inl (BadRequestException FileMissing), \<lparr>world = memory0, trace = [RepoFindById 1]\<rparr>)"
    using uploadImage_checks_not_masked [of memory_externals 1 state0 "ExternalError []" config0 None row1 png]
      live w [of 1] t by simp
  have n5: "uploadImage memory_externals config0 1 (Some text_file) state0
     = (Inl (BadRequestException NotAnImage), \<lparr>world = memory0, trace = [RepoFindById 1]\<rparr>)"
    using uploadImage_checks_not_masked [of memory_externals 1 state0 "ExternalError []" config0 "Some text_file" row1 text_file]
      live w [of 1] t plain by simp
  have live_down: "fst (repo_findById memory_externals 1 (world state_down)) = Inr (Some row1)"
    by (simp add: memory_defs state_down_def)
  have n6: "(\<exists>r. fst (uploadImage memory_externals config0 1 (Some png) state_down) = Inr r)
        \<or> fst (uploadImage memory_externals config0 1 (Some png) state_down) = Inl InternalServerErrorException
          \<and> last (trace (snd (uploadImage memory_externals config0 1 (Some png) state_down)))
              = Console ConsoleError"
    using uploadImage_checks_not_masked [of memory_externals 1 state_down "ExternalError []" config0 "Some png" row1 png]
      live live_down img by simp
  have n7: "last (trace (snd (uploadImage memory_externals config0 1 (Some png) state_down)))
              = Console ConsoleError"
    using n6 by (simp add: uploadImage_memory_down)
  show ?thesis
    using n1 n2 n3 n4 n5 n7 uploadImage_memory_ok uploadImage_memory_down by blast
qed

section \<open>A failed deletion of the old image does not stop the upload\<close>

text \<open>
  Claim C8: \<^verbatim>\<open>deleteFile(key)\<close> hands an error of the store to its caller, after printing its
  message; when the store rejects with \<^verbatim>\<open>undefined\<close> or \<^verbatim>\<open>null\<close>, reading the message
  raises a \<^verbatim>\<open>TypeError\<close>, and that is what the caller gets, nothing being printed.
  \<^verbatim>\<open>deleteOldImage\<close>, the step of \<^verbatim>\<open>uploadImage\<close> that removes the old object, never throws, and
  leaves the world as the removal left it. So for every \<^verbatim>\<open>uploadImage\<close> on a live product that
  has an image, with a file that passes the checks: whatever the removal did, the next call
  is the \<^verbatim>\<open>putObject\<close> of the new image, made in the world the removal left; when the store
  refuses the new object the result is the internal error and the world is the one the store
  left; when it accepts, the repository update that persists the new URL is made in the
  world with the new object, and when that update returns, the product returned is the
  updated one, resolved, and the world left is the world of that update after the signing.
\<close>

theorem old_image_delete_failure_swallowed:
  "(fst (minio_removeObject E (MINIO_BUCKET cfg) k (world s)) = Inl e \<longrightarrow>
      deleteFile E cfg k s
        = (if e = Nullish
           then (Inl TypeError,
                 \<lparr>world = snd (minio_removeObject E (MINIO_BUCKET cfg) k (world s)),
                  trace = trace s @ [RemoveObject (MINIO_BUCKET cfg) k]\<rparr>)
           else (Inl e,
                 \<lparr>world = snd (minio_removeObject E (MINIO_BUCKET cfg) k (world s)),
                  trace = trace s @ [RemoveObject (MINIO_BUCKET cfg) k, Console ConsoleError]\<rparr>)))
   \<and> fst (deleteOldImage E cfg url s) = Inr ()
   \<and> world (snd (deleteOldImage E cfg url s))
       = snd (minio_removeObject E (MINIO_BUCKET cfg) (Some (last (split CHR ''/'' url))) (world s))
   \<and> (fst (repo_findById E ident (world s)) = Inr (Some p) \<and> \<not> truthy_bool (isDeleted p)
        \<and> productEntity.imageUrl p = Value url \<and> url \<noteq> []
        \<and> file = Some f \<and> prefix ''image/'' (mimetype f) \<longrightarrow>
       (let s1 = \<lparr>world = snd (repo_findById E ident (world s)), trace = trace s @ [RepoFindById ident]\<rparr>;
            old = Some (last (split CHR ''/'' url));
            del = minio_removeObject E (MINIO_BUCKET cfg) old (world s1);
            s2 = snd (deleteOldImage E cfg url s1);
            key = image_key E ident (date_now E (snd del));
            put = minio_putObject E (MINIO_BUCKET cfg) key (buffer f) (length (buffer f))
                    [(''Content-Type'', ''image/jpeg'')] (snd del);
            persist = \<lparr>stockQuantity = None, inStock = None,
                       updateProductDto.imageUrl = Some (image_url E cfg key), others = Map.empty\<rparr>;
            upd = repo_update E ident persist (snd put)
        in world s2 = snd del
           \<and> (fst del = Inl e \<longrightarrow>
                trace s2 = trace s1 @
                  (if e = Nullish then [RemoveObject (MINIO_BUCKET cfg) old, Console ConsoleWarn]
                   else [RemoveObject (MINIO_BUCKET cfg) old, Console ConsoleError, Console ConsoleWarn]))
           \<and> prefix (trace s2 @ [put_image cfg (buffer f) key])
                (trace (snd (uploadImage E cfg ident file s)))
           \<and> (case fst put of
                 Inl e' \<Rightarrow>
                   uploadImage E cfg ident file s
                     = (Inl InternalServerErrorException,
                        \<lparr>world = snd put,
                         trace = trace s2 @ [put_image cfg (buffer f) key, Console ConsoleError]\<rparr>)
               | Inr u \<Rightarrow>
                   (case fst upd of
                      Inl e' \<Rightarrow>
                        uploadImage E cfg ident file s
                          = (Inl InternalServerErrorException,
                             \<lparr>world = snd upd,
                              trace = trace s2 @ [put_image cfg (buffer f) key, RepoUpdate ident persist,
                                                  Console ConsoleError]\<rparr>)
                    | Inr updated \<Rightarrow>
                        fst (uploadImage E cfg ident file s)
                          = Inr (productData (resolved E cfg (snd upd) updated))
                        \<and> world (snd (uploadImage E cfg ident file s))
                          = signing_world E cfg (snd upd) updated
                        \<and> prefix (trace s2 @ [put_image cfg (buffer f) key, RepoUpdate ident persist])
                            (trace (snd (uploadImage E cfg ident file s)))))))"
proof (intro conjI impI)
  assume "fst (minio_removeObject E (MINIO_BUCKET cfg) k (world s)) = Inl e"
  then show "deleteFile E cfg k s
        = (if e = Nullish
           then (Inl TypeError,
                 \<lparr>world = snd (minio_removeObject E (MINIO_BUCKET cfg) k (world s)),
                  trace = trace s @ [RemoveObject (MINIO_BUCKET cfg) k]\<rparr>)
           else (Inl e,
                 \<lparr>world = snd (minio_removeObject E (MINIO_BUCKET cfg) k (world s)),
                  trace = trace s @ [RemoveObject (MINIO_BUCKET cfg) k, Console ConsoleError]\<rparr>))"
    by (simp add: deleteFile_run Let_def)
next
  show "fst (deleteOldImage E cfg url s) = Inr ()"
    by (rule deleteOldImage_never_throws)
next
  show "world (snd (deleteOldImage E cfg url s))
       = snd (minio_removeObject E (MINIO_BUCKET cfg) (Some (last (split CHR ''/'' url))) (world s))"
    by (simp add: deleteOldImage_run Let_def)
next
  assume a: "fst (repo_findById E ident (world s)) = Inr (Some p) \<and> \<not> truthy_bool (isDeleted p)
        \<and> productEntity.imageUrl p = Value url \<and> url \<noteq> []
        \<and> file = Some f \<and> prefix ''image/'' (mimetype f)"
  define s1 where "s1 = \<lparr>world = snd (repo_findById E ident (world s)), trace = trace s @ [RepoFindById ident]\<rparr>"
  define old where "old = Some (last (split CHR ''/'' url))"
  define del where "del = minio_removeObject E (MINIO_BUCKET cfg) old (world s1)"
  define s2 where "s2 = snd (deleteOldImage E cfg url s1)"
  define key where "key = image_key E ident (date_now E (snd del))"
  define put where "put = minio_putObject E (MINIO_BUCKET cfg) key (buffer f) (length (buffer f))
                    [(''Content-Type'', ''image/jpeg'')] (snd del)"
  define upd where "upd = repo_update E ident
                     \<lparr>stockQuantity = None, inStock = None,
                      updateProductDto.imageUrl = Some (image_url E cfg key), others = Map.empty\<rparr>
                     (snd put)"
  define s4 where "s4 = \<lparr>world = snd upd,
                         trace = trace s2 @ [put_image cfg (buffer f) key,
                                             RepoUpdate ident
                                               \<lparr>stockQuantity = None, inStock = None,
                                                updateProductDto.imageUrl = Some (image_url E cfg key),
                                                others = Map.empty\<rparr>]\<rparr>"
  have d: "deleteOldImage E cfg url s1 = (Inr (), s2)"
    using deleteOldImage_never_throws [of E cfg url s1] by (simp add: s2_def prod_eq_iff)
  have w2: "world s2 = snd del"
    by (simp add: s2_def del_def old_def deleteOldImage_run Let_def)
  have t2: "trace s2 = trace s1 @
                  (if e = Nullish then [RemoveObject (MINIO_BUCKET cfg) old, Console ConsoleWarn]
                   else [RemoveObject (MINIO_BUCKET cfg) old, Console ConsoleError, Console ConsoleWarn])"
    if "fst del = Inl e"
    using that by (simp add: s2_def del_def old_def deleteOldImage_run Let_def)
  let ?persist = "\<lparr>stockQuantity = None, inStock = None,
                   updateProductDto.imageUrl = Some (image_url E cfg key), others = Map.empty\<rparr>"
  note unfold = uploadImage_def run s1_def [symmetric] d uploadProductImage_run Let_def w2
    key_def [symmetric] put_def [symmetric] upd_def [symmetric]
  have "prefix (trace s2 @ [put_image cfg (buffer f) key]) (trace (snd (uploadImage E cfg ident file s)))
      \<and> (case fst put of
            Inl e' \<Rightarrow>
              uploadImage E cfg ident file s
                = (Inl InternalServerErrorException,
                   \<lparr>world = snd put,
                    trace = trace s2 @ [put_image cfg (buffer f) key, Console ConsoleError]\<rparr>)
          | Inr u \<Rightarrow>
              (case fst upd of
                 Inl e' \<Rightarrow>
                   uploadImage E cfg ident file s
                     = (Inl InternalServerErrorException,
                        \<lparr>world = snd upd,
                         trace = trace s2 @ [put_image cfg (buffer f) key, RepoUpdate ident ?persist,
                                             Console ConsoleError]\<rparr>)
               | Inr updated \<Rightarrow>
                   fst (uploadImage E cfg ident file s)
                     = Inr (productData (resolved E cfg (snd upd) updated))
                   \<and> world (snd (uploadImage E cfg ident file s))
                     = signing_world E cfg (snd upd) updated
                   \<and> prefix (trace s2 @ [put_image cfg (buffer f) key, RepoUpdate ident ?persist])
                       (trace (snd (uploadImage E cfg ident file s)))))"
  proof (cases "fst put")
    case (Inl e')
    with a show ?thesis
      by (simp add: unfold)
  next
    case put_ok: (Inr u)
    show ?thesis
    proof (cases "fst upd")
      case (Inl e')
      with a put_ok show ?thesis
        by (simp add: unfold)
    next
      case (Inr updated)
      obtain s' where res: "resolveImage False E cfg updated s4 = (Inr (resolved E cfg (world s4) updated), s')"
        and ws: "world s' = signing_world E cfg (world s4) updated"
        and ps: "prefix (trace s4) (trace s')"
        using resolveImage_result [of False E cfg updated s4] by blast
      have "uploadImage E cfg ident file s = (Inr (productData (resolved E cfg (snd upd) updated)), s')"
        using a put_ok Inr res by (simp add: unfold s4_def)
      moreover have "prefix (trace s2 @ [put_image cfg (buffer f) key, RepoUpdate ident ?persist]) (trace s')"
        using ps by (simp add: s4_def)
      moreover from this have "prefix (trace s2 @ [put_image cfg (buffer f) key]) (trace s')"
        by (rule prefix_drop_last)
      ultimately show ?thesis
        using put_ok Inr ws by (simp add: s4_def)
    qed
  qed
  with w2 t2
  show "let s1 = \<lparr>world = snd (repo_findById E ident (world s)), trace = trace s @ [RepoFindById ident]\<rparr>;
            old = Some (last (split CHR ''/'' url));
            del = minio_removeObject E (MINIO_BUCKET cfg) old (world s1);
            s2 = snd (deleteOldImage E cfg url s1);
            key = image_key E ident (date_now E (snd del));
            put = minio_putObject E (MINIO_BUCKET cfg) key (buffer f) (length (buffer f))
                    [(''Content-Type'', ''image/jpeg'')] (snd del);
            persist = \<lparr>stockQuantity = None, inStock = None,
                       updateProductDto.imageUrl = Some (image_url E cfg key), others = Map.empty\<rparr>;
            upd = repo_update E ident persist (snd put)
        in world s2 = snd del
           \<and> (fst del = Inl e \<longrightarrow>
                trace s2 = trace s1 @
                  (if e = Nullish then [RemoveObject (MINIO_BUCKET cfg) old, Console ConsoleWarn]
                   else [RemoveObject (MINIO_BUCKET cfg) old, Console ConsoleError, Console ConsoleWarn]))
           \<and> prefix (trace s2 @ [put_image cfg (buffer f) key])
                (trace (snd (uploadImage E cfg ident file s)))
           \<and> (case fst put of
                 Inl e' \<Rightarrow>
                   uploadImage E cfg ident file s
                     = (Inl InternalServerErrorException,
                        \<lparr>world = snd put,
                         trace = trace s2 @ [put_image cfg (buffer f) key, Console ConsoleError]\<rparr>)
               | Inr u \<Rightarrow>
                   (case fst upd of
                      Inl e' \<Rightarrow>
                        uploadImage E cfg ident file s
                          = (Inl InternalServerErrorException,
                             \<lparr>world = snd upd,
                              trace = trace s2 @ [put_image cfg (buffer f) key, RepoUpdate ident persist,
                                                  Console ConsoleError]\<rparr>)
                    | Inr updated \<Rightarrow>
                        fst (uploadImage E cfg ident file s)
                          = Inr (productData (resolved E cfg (snd upd) updated))
                        \<and> world (snd (uploadImage E cfg ident file s))
                          = signing_world E cfg (snd upd) updated
                        \<and> prefix (trace s2 @ [put_image cfg (buffer f) key, RepoUpdate ident persist])
                            (trace (snd (uploadImage E cfg ident file s)))))"
    unfolding Let_def s1_def old_def del_def s2_def key_def put_def upd_def by blast
qed

theorem old_image_delete_failure_swallowed_witness:
  "deleteFile memory_externals config0 (Some ''product-1-17.jpg'') state0
     = (Inl (ExternalError ''no such object''),
        \<lparr>world = memory0,
         trace = [RemoveObject (Some ''products'') (Some ''product-1-17.jpg''), Console ConsoleError]\<rparr>)
   \<and> deleteFile rejecting_store config0 (Some ''product-1-17.jpg'') state0
     = (Inl TypeError,
        \<lparr>world = memory0, trace = [RemoveObject (Some ''products'') (Some ''product-1-17.jpg'')]\<rparr>)
   \<and> fst (deleteOldImage memory_externals config0 old_url state0) = Inr ()
   \<and> fst (uploadImage memory_externals config0 1 (Some png) state0)
     = Inr (row1\<lparr>productEntity.imageUrl := Value ''signed/product-1-1700000000000.jpg'', isDeleted := Absent\<rparr>)
   \<and> world (snd (uploadImage memory_externals config0 1 (Some png) state0))
     = memory0\<lparr>objects := [''product-1-1700000000000.jpg''], rows := [(1, row1_new_image), (2, row2)]\<rparr>
   \<and> prefix [RepoFindById 1,
              RemoveObject (Some ''products'') (Some ''product-1-17.jpg''),
              Console ConsoleError, Console ConsoleWarn,
              put_image config0 (buffer png) ''product-1-1700000000000.jpg'',
              RepoUpdate 1
                \<lparr>stockQuantity = None, inStock = None,
                 updateProductDto.imageUrl
                   = Some ''http://localhost:9000/products/product-1-1700000000000.jpg'',
                 others = Map.empty\<rparr>]
        (trace (snd (uploadImage memory_externals config0 1 (Some png) state0)))
   \<and> put_image config0 (buffer png) ''product-1-1700000000000.jpg''
     = PutObject (Some ''products'') ''product-1-1700000000000.jpg'' [137, 80, 78, 71] 4
         [(''Content-Type'', ''image/jpeg'')]
   \<and> fst (uploadImage rejecting_store config0 1 (Some png) state0)
     = Inr (row1\<lparr>productEntity.imageUrl := Absent, isDeleted := Absent\<rparr>)
   \<and> world (snd (uploadImage rejecting_store config0 1 (Some png) state0))
     = memory0\<lparr>objects := [''product-1-1700000000000.jpg''], rows := [(1, row1_new_image), (2, row2)]\<rparr>"
proof (intro conjI)
  note rule = old_image_delete_failure_swallowed [of memory_externals config0 "Some ''product-1-17.jpg''" state0
      "ExternalError ''no such object''" old_url 1 row1 "Some png" png, unfolded Let_def]
  note rule_rejecting = old_image_delete_failure_swallowed [of rejecting_store config0 "Some ''product-1-17.jpg''" state0
      Nullish old_url 1 row1 "Some png" png, unfolded Let_def]
  have gone: "fst (minio_removeObject memory_externals (MINIO_BUCKET config0) (Some ''product-1-17.jpg'')
                (world state0)) = Inl (ExternalError ''no such object'')"
    by (simp add: eval_defs)
  have rejected: "fst (minio_removeObject rejecting_store (MINIO_BUCKET config0) (Some ''product-1-17.jpg'')
                (world state0)) = Inl Nullish"
    by (simp add: rejecting_store_def)
  have ready: "fst (repo_findById memory_externals 1 (world state0)) = Inr (Some row1)
      \<and> \<not> truthy_bool (isDeleted row1)
      \<and> productEntity.imageUrl row1 = Value old_url \<and> old_url \<noteq> []
      \<and> Some png = Some png \<and> prefix ''image/'' (mimetype png)"
    by (simp add: eval_defs old_url_def png_def)
  have ready_rejecting: "fst (repo_findById rejecting_store 1 (world state0)) = Inr (Some row1)
      \<and> \<not> truthy_bool (isDeleted row1)
      \<and> productEntity.imageUrl row1 = Value old_url \<and> old_url \<noteq> []
      \<and> Some png = Some png \<and> prefix ''image/'' (mimetype png)"
    by (simp add: rejecting_store_def eval_defs old_url_def png_def)
  note upload = rule [THEN conjunct2, THEN conjunct2, THEN conjunct2, THEN mp, OF ready]
  note upload_rejecting =
    rule_rejecting [THEN conjunct2, THEN conjunct2, THEN conjunct2, THEN mp, OF ready_rejecting]
  show "deleteFile memory_externals config0 (Some ''product-1-17.jpg'') state0
     = (Inl (ExternalError ''no such object''),
        \<lparr>world = memory0,
         trace = [RemoveObject (Some ''products'') (Some ''product-1-17.jpg''), Console ConsoleError]\<rparr>)"
    using rule [THEN conjunct1, THEN mp, OF gone] by (simp add: eval_defs)
  show "deleteFile rejecting_store config0 (Some ''product-1-17.jpg'') state0
     = (Inl TypeError,
        \<lparr>world = memory0, trace = [RemoveObject (Some ''products'') (Some ''product-1-17.jpg'')]\<rparr>)"
    using rule_rejecting [THEN conjunct1, THEN mp, OF rejected]
    by (simp add: rejecting_store_def eval_defs)
  show "fst (deleteOldImage memory_externals config0 old_url state0) = Inr ()"
    using rule by blast
  have facts: "fst (uploadImage memory_externals config0 1 (Some png) state0)
       = Inr (row1\<lparr>productEntity.imageUrl := Value ''signed/product-1-1700000000000.jpg'', isDeleted := Absent\<rparr>)
     \<and> world (snd (uploadImage memory_externals config0 1 (Some png) state0))
       = memory0\<lparr>objects := [''product-1-1700000000000.jpg''], rows := [(1, row1_new_image), (2, row2)]\<rparr>
     \<and> prefix [RepoFindById 1,
              RemoveObject (Some ''products'') (Some ''product-1-17.jpg''),
              Console ConsoleError, Console ConsoleWarn,
              put_image config0 (buffer png) ''product-1-1700000000000.jpg'',
              RepoUpdate 1
                \<lparr>stockQuantity = None, inStock = None,
                 updateProductDto.imageUrl
                   = Some ''http://localhost:9000/products/product-1-1700000000000.jpg'',
                 others = Map.empty\<rparr>]
        (trace (snd (uploadImage memory_externals config0 1 (Some png) state0)))"
    using upload
    by (simp add: deleteOldImage_run eval_defs rule_defs signing_world_def old_url_def
          row1_new_image_def)
  from facts show "fst (uploadImage memory_externals config0 1 (Some png) state0)
     = Inr (row1\<lparr>productEntity.imageUrl := Value ''signed/product-1-1700000000000.jpg'', isDeleted := Absent\<rparr>)"
    by blast
  from facts show "world (snd (uploadImage memory_externals config0 1 (Some png) state0))
     = memory0\<lparr>objects := [''product-1-1700000000000.jpg''], rows := [(1, row1_new_image), (2, row2)]\<rparr>"
    by blast
  from facts show "prefix [RepoFindById 1,
              RemoveObject (Some ''products'') (Some ''product-1-17.jpg''),
              Console ConsoleError, Console ConsoleWarn,
              put_image config0 (buffer png) ''product-1-1700000000000.jpg'',
              RepoUpdate 1
                \<lparr>stockQuantity = None, inStock = None,
                 updateProductDto.imageUrl
                   = Some ''http://localhost:9000/products/product-1-1700000000000.jpg'',
                 others = Map.empty\<rparr>]
        (trace (snd (uploadImage memory_externals config0 1 (Some png) state0)))"
    by blast
  show "put_image config0 (buffer png) ''product-1-1700000000000.jpg''
     = PutObject (Some ''products'') ''product-1-1700000000000.jpg'' [137, 80, 78, 71] 4
         [(''Content-Type'', ''image/jpeg'')]"
    by (simp add: put_image_def config0_def png_def)
  have facts_rejecting: "fst (uploadImage rejecting_store config0 1 (Some png) state0)
       = Inr (row1\<lparr>productEntity.imageUrl := Absent, isDeleted := Absent\<rparr>)
     \<and> world (snd (uploadImage rejecting_store config0 1 (Some png) state0))
       = memory0\<lparr>objects := [''product-1-1700000000000.jpg''], rows := [(1, row1_new_image), (2, row2)]\<rparr>"
    using upload_rejecting
    by (simp add: deleteOldImage_run rejecting_store_def eval_defs rule_defs signing_world_def
          old_url_def row1_new_image_def)
  from facts_rejecting show "fst (uploadImage rejecting_store config0 1 (Some png) state0)
     = Inr (row1\<lparr>productEntity.imageUrl := Absent, isDeleted := Absent\<rparr>)"
    by blast
  from facts_rejecting show "world (snd (uploadImage rejecting_store config0 1 (Some png) state0))
     = memory0\<lparr>objects := [''product-1-1700000000000.jpg''], rows := [(1, row1_new_image), (2, row2)]\<rparr>"
    by blast
qed

section \<open>No response carries the soft-delete flag\<close>

text \<open>
  Claim C4: every product a service operation returns (\<^verbatim>\<open>findById\<close>, \<^verbatim>\<open>create\<close>,
  \<^verbatim>\<open>update\<close>, \<^verbatim>\<open>uploadImage\<close>, and each item of \<^verbatim>\<open>findAll\<close>) has no
  \<^verbatim>\<open>isDeleted\<close> property.
\<close>

theorem responses_without_isDeleted:
  "(fst (findById E cfg ident s) = Inr r \<longrightarrow> isDeleted r = Absent)
   \<and> (fst (create E dto s) = Inr r \<longrightarrow> isDeleted r = Absent)
   \<and> (fst (update E cfg ident patch s) = Inr r \<longrightarrow> isDeleted r = Absent)
   \<and> (fst (uploadImage E cfg ident file s) = Inr r \<longrightarrow> isDeleted r = Absent)
   \<and> (fst (findAll E cfg filters s) = Inr rs \<longrightarrow> (\<forall>r \<in> set rs. isDeleted r = Absent))"
proof (intro conjI impI)
  assume "fst (findById E cfg ident s) = Inr r"
  then show "isDeleted r = Absent"
    by (auto simp: findById_def run productData_def split: sum.splits prod.splits option.splits if_splits)
next
  assume "fst (create E dto s) = Inr r"
  then show "isDeleted r = Absent"
    by (auto simp: create_def run Let_def productData_def split: sum.splits prod.splits if_splits)
next
  assume "fst (update E cfg ident patch s) = Inr r"
  then show "isDeleted r = Absent"
    by (auto simp: update_def run Let_def productData_def split: sum.splits prod.splits option.splits if_splits)
next
  assume "fst (uploadImage E cfg ident file s) = Inr r"
  then show "isDeleted r = Absent"
    by (auto simp: uploadImage_def run productData_def split: sum.splits prod.splits option.splits if_splits)
next
  assume a: "fst (findAll E cfg filters s) = Inr rs"
  let ?filters = "if includeDeleted filters = None then filters\<lparr>includeDeleted := Some False\<rparr> else filters"
  let ?s1 = "\<lparr>world = snd (repo_findAll E ?filters (world s)), trace = trace s @ [RepoFindAll ?filters]\<rparr>"
  from a obtain ps where ps: "fst (repo_findAll E ?filters (world s)) = Inr ps"
    by (cases "fst (repo_findAll E ?filters (world s))") (simp_all add: findAll_run Let_def)
  obtain rs' s' where r: "promise_all_map
        (\<lambda>product. bind (resolveImage True E cfg product) (\<lambda>product. ret (productData product)))
        ps ?s1 = (Inr rs', s')"
    and len: "length rs' = length ps"
    and each: "\<forall>i < length ps. \<exists>w. rs' ! i = productData (resolved E cfg w (ps ! i))"
    using promise_all_map_resolve [of True E cfg ps ?s1] by blast
  from a ps r have "rs = rs'"
    by (simp add: findAll_run Let_def)
  moreover have "isDeleted (rs' ! i) = Absent" if "i < length ps" for i
  proof -
    from each that obtain w where "rs' ! i = productData (resolved E cfg w (ps ! i))"
      by blast
    then show ?thesis
      by (simp add: productData_def)
  qed
  ultimately show "\<forall>r \<in> set rs. isDeleted r = Absent"
    using len by (auto simp: in_set_conv_nth)
qed

theorem responses_without_isDeleted_witness:
  "isDeleted row1_signed = Absent
   \<and> fst (findById memory_externals config0 1 state0) = Inr row1_signed
   \<and> (\<exists>r. fst (create memory_externals widget state0) = Inr r \<and> isDeleted r = Absent)
   \<and> (\<exists>r. fst (update memory_externals config0 1 patch0 state0) = Inr r \<and> isDeleted r = Absent)
   \<and> (\<exists>r. fst (uploadImage memory_externals config0 1 (Some png) state0) = Inr r \<and> isDeleted r = Absent)
   \<and> (\<exists>rs. fst (findAll memory_externals config0 with_deleted state0) = Inr rs \<and> length rs = 2
         \<and> (\<forall>r \<in> set rs. isDeleted r = Absent))"
proof -
  note rule = responses_without_isDeleted [of memory_externals config0 1 state0 _ widget patch0 "Some png" with_deleted]
  have a: "isDeleted row1_signed = Absent"
    using rule [of row1_signed] findById_memory by blast
  have b: "\<exists>r. fst (create memory_externals widget state0) = Inr r \<and> isDeleted r = Absent"
    using rule create_memory by blast
  have c: "\<exists>r. fst (update memory_externals config0 1 patch0 state0) = Inr r \<and> isDeleted r = Absent"
    using rule update_memory by blast
  have d: "\<exists>r. fst (uploadImage memory_externals config0 1 (Some png) state0) = Inr r \<and> isDeleted r = Absent"
    using rule uploadImage_memory_ok by blast
  have e: "\<exists>rs. fst (findAll memory_externals config0 with_deleted state0) = Inr rs \<and> length rs = 2
         \<and> (\<forall>r \<in> set rs. isDeleted r = Absent)"
    using rule [of _ "[row1_signed, row2\<lparr>isDeleted := Absent\<rparr>]"] findAll_memory_with_deleted
    by simp
  show ?thesis
    using a b c d e findById_memory by blast
qed

section \<open>Image resolution\<close>

text \<open>
  Claim C5, as the specification states it, is about every operation that returns a product
  with an \<^verbatim>\<open>imageUrl\<close>: the URL is replaced by the signed one when signing the trailing path
  segment yields a URL. \<^verbatim>\<open>create\<close> returns the product of the repository as it is, without
  any resolution (the specification says of it that a new product has no image, which is up
  to the repository). Over a repository that inserts every product with a placeholder image,
  \<^verbatim>\<open>create\<close> returns the stored URL, although signing its trailing segment yields a URL.
\<close>

theorem create_returns_unresolved_image:
  "fst (create placeholder_repository widget state0) = Inr (row3_placeholder\<lparr>isDeleted := Absent\<rparr>)
   \<and> productEntity.imageUrl (row3_placeholder\<lparr>isDeleted := Absent\<rparr>)
       = Value ''http://localhost:9000/products/placeholder.jpg''
   \<and> fst (minio_presignedGetObject placeholder_repository (MINIO_BUCKET config0)
            (last (split CHR ''/'' ''http://localhost:9000/products/placeholder.jpg'')) 604800
            (world (snd (create placeholder_repository widget state0))))
       = Inr ''signed/placeholder.jpg''
   \<and> resolved placeholder_repository config0 (world (snd (create placeholder_repository widget state0)))
         row3_placeholder
       = row3_placeholder\<lparr>productEntity.imageUrl := Value ''signed/placeholder.jpg''\<rparr>
   \<and> fst (create placeholder_repository widget state0)
       \<noteq> Inr (productData (resolved placeholder_repository config0
                  (world (snd (create placeholder_repository widget state0))) row3_placeholder))"
  by (simp add: create_def run placeholder_repository_def placeholder_image_def row3_placeholder_def
        widget_def rule_defs eval_defs)

text \<open>
  Claim C5, amended: wherever one of \<^verbatim>\<open>findById\<close>, \<^verbatim>\<open>update\<close>, \<^verbatim>\<open>uploadImage\<close> and
  \<^verbatim>\<open>findAll\<close> returns a product, its \<^verbatim>\<open>imageUrl\<close> is what the resolution rule of the
  specification leaves (\<open>resolved\<close>): the signed URL when signing the trailing path segment
  yields one, and no property at all when signing yields nothing or raises. The block that
  does this never throws, also when \<^verbatim>\<open>getSignedUrl\<close> itself throws (it does when the client
  rejects with \<^verbatim>\<open>undefined\<close> or \<^verbatim>\<open>null\<close>), so a failed resolution does not fail the
  operation around it: \<^verbatim>\<open>findById\<close> on a live product always returns, \<^verbatim>\<open>update\<close> returns
  whenever the repository update does, \<^verbatim>\<open>uploadImage\<close> returns whenever the store accepts the
  object and the repository update succeeds, and \<^verbatim>\<open>findAll\<close> returns one resolved item for
  each product of the repository. The signing of a product is asked in the world the
  preceding call has left; for the items of \<^verbatim>\<open>findAll\<close> that world depends on the items
  before. \<^verbatim>\<open>create\<close> does not resolve: it returns the product of the repository with the
  \<^verbatim>\<open>imageUrl\<close> the repository gave it.
\<close>

theorem image_resolution_rule:
  "(\<exists>s'. resolveImage warn E cfg product s = (Inr (resolved E cfg (world s) product), s')
           \<and> world s' = signing_world E cfg (world s) product)
   \<and> (fileName = Some name \<and> name \<noteq> []
        \<and> fst (minio_presignedGetObject E (MINIO_BUCKET cfg) name 604800 (world s)) = Inl Nullish \<longrightarrow>
        fst (getSignedUrl E cfg fileName s) = Inl TypeError)
   \<and> (fst (repo_findById E ident (world s)) = Inr (Some p) \<and> \<not> truthy_bool (isDeleted p) \<longrightarrow>
        fst (findById E cfg ident s)
          = Inr (productData (resolved E cfg (snd (repo_findById E ident (world s))) p)))
   \<and> (fst (repo_findById E ident (world s)) = Inr (Some p) \<and> \<not> truthy_bool (isDeleted p) \<longrightarrow>
        (let patch' = (case updateProductDto.stockQuantity patch of
                         Some q \<Rightarrow> patch\<lparr>updateProductDto.inStock := Some (0 < q)\<rparr>
                       | None \<Rightarrow> patch);
             upd = repo_update E ident patch' (snd (repo_findById E ident (world s)))
         in fst upd = Inr p2 \<longrightarrow>
              fst (update E cfg ident patch s) = Inr (productData (resolved E cfg (snd upd) p2))))
   \<and> (fst (repo_findById E ident (world s)) = Inr (Some p) \<and> \<not> truthy_bool (isDeleted p)
        \<and> file = Some f \<and> prefix ''image/'' (mimetype f) \<longrightarrow>
        (let s1 = \<lparr>world = snd (repo_findById E ident (world s)), trace = trace s @ [RepoFindById ident]\<rparr>;
             s2 = (case productEntity.imageUrl p of
                     Value old \<Rightarrow> if old = [] then s1 else snd (deleteOldImage E cfg old s1)
                   | Null \<Rightarrow> s1
                   | Absent \<Rightarrow> s1);
             key = image_key E ident (date_now E (world s2));
             put = minio_putObject E (MINIO_BUCKET cfg) key (buffer f) (length (buffer f))
                     [(''Content-Type'', ''image/jpeg'')] (world s2);
             upd = repo_update E ident
                     \<lparr>stockQuantity = None, inStock = None,
                      updateProductDto.imageUrl = Some (image_url E cfg key), others = Map.empty\<rparr>
                     (snd put)
         in fst put = Inr () \<and> fst upd = Inr p2 \<longrightarrow>
              fst (uploadImage E cfg ident file s) = Inr (productData (resolved E cfg (snd upd) p2))))
   \<and> (fst (repo_findAll E (if includeDeleted filters = None then filters\<lparr>includeDeleted := Some False\<rparr>
                            else filters) (world s)) = Inr ps \<longrightarrow>
        (\<exists>rs. fst (findAll E cfg filters s) = Inr rs
           \<and> length rs = length ps
           \<and> (\<forall>i < length ps. \<exists>w. rs ! i = productData (resolved E cfg w (ps ! i)))))
   \<and> (fst (repo_create E (if createProductDto.stockQuantity dto = Some 0
                           then dto\<lparr>createProductDto.inStock := Some False\<rparr> else dto) (world s)) = Inr created \<longrightarrow>
        fst (create E dto s) = Inr (productData created)
        \<and> productEntity.imageUrl (productData created) = productEntity.imageUrl created)"
proof (intro conjI)
  show "\<exists>s'. resolveImage warn E cfg product s = (Inr (resolved E cfg (world s) product), s')
           \<and> world s' = signing_world E cfg (world s) product"
    using resolveImage_result [of warn E cfg product s] by blast
next
  show "fileName = Some name \<and> name \<noteq> []
        \<and> fst (minio_presignedGetObject E (MINIO_BUCKET cfg) name 604800 (world s)) = Inl Nullish \<longrightarrow>
        fst (getSignedUrl E cfg fileName s) = Inl TypeError"
    by (simp add: getSignedUrl_run Let_def)
next
  show "fst (repo_create E (if createProductDto.stockQuantity dto = Some 0
                           then dto\<lparr>createProductDto.inStock := Some False\<rparr> else dto) (world s)) = Inr created \<longrightarrow>
        fst (create E dto s) = Inr (productData created)
        \<and> productEntity.imageUrl (productData created) = productEntity.imageUrl created"
    by (simp add: create_def run Let_def productData_def)
next
  show "fst (repo_findById E ident (world s)) = Inr (Some p) \<and> \<not> truthy_bool (isDeleted p) \<longrightarrow>
        fst (findById E cfg ident s)
          = Inr (productData (resolved E cfg (snd (repo_findById E ident (world s))) p))"
  proof
    let ?s1 = "\<lparr>world = snd (repo_findById E ident (world s)), trace = trace s @ [RepoFindById ident]\<rparr>"
    assume a: "fst (repo_findById E ident (world s)) = Inr (Some p) \<and> \<not> truthy_bool (isDeleted p)"
    obtain s' where "resolveImage False E cfg p ?s1 = (Inr (resolved E cfg (world ?s1) p), s')"
      using resolveImage_run by blast
    with a show "fst (findById E cfg ident s)
          = Inr (productData (resolved E cfg (snd (repo_findById E ident (world s))) p))"
      by (simp add: findById_def run)
  qed
next
  show "fst (repo_findById E ident (world s)) = Inr (Some p) \<and> \<not> truthy_bool (isDeleted p) \<longrightarrow>
        (let patch' = (case updateProductDto.stockQuantity patch of
                         Some q \<Rightarrow> patch\<lparr>updateProductDto.inStock := Some (0 < q)\<rparr>
                       | None \<Rightarrow> patch);
             upd = repo_update E ident patch' (snd (repo_findById E ident (world s)))
         in fst upd = Inr p2 \<longrightarrow>
              fst (update E cfg ident patch s) = Inr (productData (resolved E cfg (snd upd) p2)))"
    unfolding Let_def
  proof (intro impI)
    let ?patch = "case updateProductDto.stockQuantity patch of
                    Some q \<Rightarrow> patch\<lparr>updateProductDto.inStock := Some (0 < q)\<rparr>
                  | None \<Rightarrow> patch"
    let ?upd = "repo_update E ident ?patch (snd (repo_findById E ident (world s)))"
    let ?s2 = "\<lparr>world = snd ?upd, trace = trace s @ [RepoFindById ident, RepoUpdate ident ?patch]\<rparr>"
    assume a: "fst (repo_findById E ident (world s)) = Inr (Some p) \<and> \<not> truthy_bool (isDeleted p)"
      and u: "fst ?upd = Inr p2"
    obtain s' where "resolveImage False E cfg p2 ?s2 = (Inr (resolved E cfg (world ?s2) p2), s')"
      using resolveImage_run by blast
    with a u show "fst (update E cfg ident patch s) = Inr (productData (resolved E cfg (snd ?upd) p2))"
      by (simp add: update_def run Let_def)
  qed
next
  show "fst (repo_findById E ident (world s)) = Inr (Some p) \<and> \<not> truthy_bool (isDeleted p)
        \<and> file = Some f \<and> prefix ''image/'' (mimetype f) \<longrightarrow>
        (let s1 = \<lparr>world = snd (repo_findById E ident (world s)), trace = trace s @ [RepoFindById ident]\<rparr>;
             s2 = (case productEntity.imageUrl p of
                     Value old \<Rightarrow> if old = [] then s1 else snd (deleteOldImage E cfg old s1)
                   | Null \<Rightarrow> s1
                   | Absent \<Rightarrow> s1);
             key = image_key E ident (date_now E (world s2));
             put = minio_putObject E (MINIO_BUCKET cfg) key (buffer f) (length (buffer f))
                     [(''Content-Type'', ''image/jpeg'')] (world s2);
             upd = repo_update E ident
                     \<lparr>stockQuantity = None, inStock = None,
                      updateProductDto.imageUrl = Some (image_url E cfg key), others = Map.empty\<rparr>
                     (snd put)
         in fst put = Inr () \<and> fst upd = Inr p2 \<longrightarrow>
              fst (uploadImage E cfg ident file s) = Inr (productData (resolved E cfg (snd upd) p2)))"
  proof (intro impI)
    assume a: "fst (repo_findById E ident (world s)) = Inr (Some p) \<and> \<not> truthy_bool (isDeleted p)
        \<and> file = Some f \<and> prefix ''image/'' (mimetype f)"
    define s1 where "s1 = \<lparr>world = snd (repo_findById E ident (world s)), trace = trace s @ [RepoFindById ident]\<rparr>"
    define s2 where "s2 = (case productEntity.imageUrl p of
                     Value old \<Rightarrow> if old = [] then s1 else snd (deleteOldImage E cfg old s1)
                   | Null \<Rightarrow> s1
                   | Absent \<Rightarrow> s1)"
    define key where "key = image_key E ident (date_now E (world s2))"
    define put where "put = minio_putObject E (MINIO_BUCKET cfg) key (buffer f) (length (buffer f))
                     [(''Content-Type'', ''image/jpeg'')] (world s2)"
    define upd where "upd = repo_update E ident
                     \<lparr>stockQuantity = None, inStock = None,
                      updateProductDto.imageUrl = Some (image_url E cfg key), others = Map.empty\<rparr>
                     (snd put)"
    define s4 where "s4 = \<lparr>world = snd upd,
                           trace = trace s2 @ [put_image cfg (buffer f) key,
                                               RepoUpdate ident
                                                 \<lparr>stockQuantity = None, inStock = None,
                                                  updateProductDto.imageUrl = Some (image_url E cfg key),
                                                  others = Map.empty\<rparr>]\<rparr>"
    have prep: "(if truthy_string (productEntity.imageUrl p)
                 then (case productEntity.imageUrl p of
                         Value url \<Rightarrow> deleteOldImage E cfg url
                       | Null \<Rightarrow> ret ()
                       | Absent \<Rightarrow> ret ())
                 else ret ()) s1 = (Inr (), s2)"
    proof (cases "productEntity.imageUrl p")
      case (Value old)
      then show ?thesis
        using deleteOldImage_never_throws [of E cfg old s1]
        by (simp add: s2_def ret_run prod_eq_iff)
    qed (simp_all add: s2_def ret_run)
    obtain s' where res: "resolveImage False E cfg p2 s4 = (Inr (resolved E cfg (world s4) p2), s')"
      using resolveImage_run by blast
    have "fst (uploadImage E cfg ident file s) = Inr (productData (resolved E cfg (snd upd) p2))"
      if "fst put = Inr ()" and "fst upd = Inr p2"
      using a that res
      by (simp add: uploadImage_def bind_run try_catch_run ret_run throw_run external_run
            s1_def [symmetric] prep uploadProductImage_run Let_def key_def [symmetric]
            put_def [symmetric] upd_def [symmetric] s4_def)
    then show "let s1 = \<lparr>world = snd (repo_findById E ident (world s)), trace = trace s @ [RepoFindById ident]\<rparr>;
             s2 = (case productEntity.imageUrl p of
                     Value old \<Rightarrow> if old = [] then s1 else snd (deleteOldImage E cfg old s1)
                   | Null \<Rightarrow> s1
                   | Absent \<Rightarrow> s1);
             key = image_key E ident (date_now E (world s2));
             put = minio_putObject E (MINIO_BUCKET cfg) key (buffer f) (length (buffer f))
                     [(''Content-Type'', ''image/jpeg'')] (world s2);
             upd = repo_update E ident
                     \<lparr>stockQuantity = None, inStock = None,
                      updateProductDto.imageUrl = Some (image_url E cfg key), others = Map.empty\<rparr>
                     (snd put)
         in fst put = Inr () \<and> fst upd = Inr p2 \<longrightarrow>
              fst (uploadImage E cfg ident file s) = Inr (productData (resolved E cfg (snd upd) p2))"
      unfolding Let_def s1_def s2_def key_def put_def upd_def by blast
  qed
next
  show "fst (repo_findAll E (if includeDeleted filters = None then filters\<lparr>includeDeleted := Some False\<rparr>
                            else filters) (world s)) = Inr ps \<longrightarrow>
        (\<exists>rs. fst (findAll E cfg filters s) = Inr rs
           \<and> length rs = length ps
           \<and> (\<forall>i < length ps. \<exists>w. rs ! i = productData (resolved E cfg w (ps ! i))))"
  proof
    let ?filters = "if includeDeleted filters = None then filters\<lparr>includeDeleted := Some False\<rparr> else filters"
    let ?s1 = "\<lparr>world = snd (repo_findAll E ?filters (world s)), trace = trace s @ [RepoFindAll ?filters]\<rparr>"
    assume ps: "fst (repo_findAll E ?filters (world s)) = Inr ps"
    obtain rs s' where "promise_all_map
        (\<lambda>product. bind (resolveImage True E cfg product) (\<lambda>product. ret (productData product)))
        ps ?s1 = (Inr rs, s')"
      and "length rs = length ps"
      and "\<forall>i < length ps. \<exists>w. rs ! i = productData (resolved E cfg w (ps ! i))"
      using promise_all_map_resolve [of True E cfg ps ?s1] by blast
    with ps show "\<exists>rs. fst (findAll E cfg filters s) = Inr rs
           \<and> length rs = length ps
           \<and> (\<forall>i < length ps. \<exists>w. rs ! i = productData (resolved E cfg w (ps ! i)))"
      by (simp add: findAll_run Let_def)
  qed
qed

theorem image_resolution_rule_witness:
  "fst (findById memory_externals config0 1 state0)
     = Inr (row1\<lparr>productEntity.imageUrl := Value ''signed/product-1-17.jpg'', isDeleted := Absent\<rparr>)
   \<and> fst (findById memory_externals config0 1 state_down)
     = Inr (row1\<lparr>productEntity.imageUrl := Absent, isDeleted := Absent\<rparr>)
   \<and> fst (getSignedUrl rejecting_store config0 (Some ''product-1-17.jpg'') state0) = Inl TypeError
   \<and> fst (findById rejecting_store config0 1 state0)
     = Inr (row1\<lparr>productEntity.imageUrl := Absent, isDeleted := Absent\<rparr>)
   \<and> fst (update memory_externals config0 1 patch0 state0)
     = Inr (row1_restocked\<lparr>productEntity.imageUrl := Value ''signed/product-1-17.jpg'', isDeleted := Absent\<rparr>)
   \<and> fst (uploadImage memory_externals config0 1 (Some png) state0)
     = Inr (row1\<lparr>productEntity.imageUrl := Value ''signed/product-1-1700000000000.jpg'', isDeleted := Absent\<rparr>)
   \<and> (\<exists>rs. fst (findAll memory_externals config0 with_deleted state0) = Inr rs
         \<and> length rs = length [row1, row2]
         \<and> (\<forall>i < length [row1, row2].
               \<exists>w. rs ! i = productData (resolved memory_externals config0 w ([row1, row2] ! i))))
   \<and> fst (create placeholder_repository widget state0) = Inr (row3_placeholder\<lparr>isDeleted := Absent\<rparr>)
   \<and> productEntity.imageUrl (row3_placeholder\<lparr>isDeleted := Absent\<rparr>)
     = Value ''http://localhost:9000/products/placeholder.jpg''"
proof (intro conjI)
  note live = memory_row1_live
  have live_down: "fst (repo_findById memory_externals 1 (world state_down)) = Inr (Some row1)
      \<and> \<not> truthy_bool (isDeleted row1)"
    by (simp add: memory_defs state_down_def)
  have live_rejecting: "fst (repo_findById rejecting_store 1 (world state0)) = Inr (Some row1)
      \<and> \<not> truthy_bool (isDeleted row1)"
    by (simp add: rejecting_store_def memory_defs)
  have img: "Some png = Some png \<and> prefix ''image/'' (mimetype png)"
    by (simp add: png_def)
  show "fst (findById memory_externals config0 1 state0)
     = Inr (row1\<lparr>productEntity.imageUrl := Value ''signed/product-1-17.jpg'', isDeleted := Absent\<rparr>)"
  proof -
    have "fst (findById memory_externals config0 1 state0)
        = Inr (productData (resolved memory_externals config0
                 (snd (repo_findById memory_externals 1 (world state0))) row1))"
      using image_resolution_rule [where E = memory_externals and cfg = config0 and s = state0 and ident = 1 and p = row1]
        live by blast
    then show ?thesis
      by (simp add: rule_defs eval_defs)
  qed
  show "fst (findById memory_externals config0 1 state_down)
     = Inr (row1\<lparr>productEntity.imageUrl := Absent, isDeleted := Absent\<rparr>)"
  proof -
    have "fst (findById memory_externals config0 1 state_down)
        = Inr (productData (resolved memory_externals config0
                 (snd (repo_findById memory_externals 1 (world state_down))) row1))"
      using image_resolution_rule [where E = memory_externals and cfg = config0 and s = state_down and ident = 1 and p = row1]
        live_down by blast
    then show ?thesis
      by (simp add: rule_defs eval_defs state_down_def)
  qed
  show "fst (getSignedUrl rejecting_store config0 (Some ''product-1-17.jpg'') state0) = Inl TypeError"
  proof -
    have "Some ''product-1-17.jpg'' = Some ''product-1-17.jpg'' \<and> ''product-1-17.jpg'' \<noteq> []
        \<and> fst (minio_presignedGetObject rejecting_store (MINIO_BUCKET config0) ''product-1-17.jpg''
                 604800 (world state0)) = Inl Nullish"
      by (simp add: rejecting_store_def)
    then show ?thesis
      using image_resolution_rule [where E = rejecting_store and cfg = config0 and s = state0
          and fileName = "Some ''product-1-17.jpg''" and name = "''product-1-17.jpg''"]
      by blast
  qed
  show "fst (findById rejecting_store config0 1 state0)
     = Inr (row1\<lparr>productEntity.imageUrl := Absent, isDeleted := Absent\<rparr>)"
  proof -
    have "fst (findById rejecting_store config0 1 state0)
        = Inr (productData (resolved rejecting_store config0
                 (snd (repo_findById rejecting_store 1 (world state0))) row1))"
      using image_resolution_rule [where E = rejecting_store and cfg = config0 and s = state0 and ident = 1 and p = row1]
        live_rejecting by blast
    then show ?thesis
      by (simp add: rule_defs rejecting_store_def eval_defs)
  qed
  show "fst (update memory_externals config0 1 patch0 state0)
     = Inr (row1_restocked\<lparr>productEntity.imageUrl := Value ''signed/product-1-17.jpg'', isDeleted := Absent\<rparr>)"
  proof -
    let ?upd = "repo_update memory_externals 1
                  (case updateProductDto.stockQuantity patch0 of
                     Some q \<Rightarrow> patch0\<lparr>updateProductDto.inStock := Some (0 < q)\<rparr>
                   | None \<Rightarrow> patch0)
                  (snd (repo_findById memory_externals 1 (world state0)))"
    have upd: "?upd = (Inr row1_restocked, memory0\<lparr>rows := [(1, row1_restocked), (2, row2)]\<rparr>)"
      by (simp add: eval_defs patch0_def row1_restocked_def)
    then have "fst ?upd = Inr row1_restocked"
      by simp
    then have "fst (update memory_externals config0 1 patch0 state0)
        = Inr (productData (resolved memory_externals config0 (snd ?upd) row1_restocked))"
      using image_resolution_rule [where E = memory_externals and cfg = config0 and s = state0 and ident = 1 and p = row1
          and patch = patch0 and ?p2.0 = row1_restocked, unfolded Let_def] live by blast
    then show ?thesis
      unfolding upd by (simp add: rule_defs eval_defs row1_restocked_def)
  qed
  show "fst (uploadImage memory_externals config0 1 (Some png) state0)
     = Inr (row1\<lparr>productEntity.imageUrl := Value ''signed/product-1-1700000000000.jpg'', isDeleted := Absent\<rparr>)"
    using image_resolution_rule [where E = memory_externals and cfg = config0 and s = state0 and ident = 1 and p = row1
        and ?p2.0 = row1_new_image and ?file = "Some png" and f = png, unfolded Let_def] live img
    by (simp add: rule_defs eval_defs deleteOldImage_run row1_new_image_def png_def)
  show "\<exists>rs. fst (findAll memory_externals config0 with_deleted state0) = Inr rs
         \<and> length rs = length [row1, row2]
         \<and> (\<forall>i < length [row1, row2].
               \<exists>w. rs ! i = productData (resolved memory_externals config0 w ([row1, row2] ! i)))"
  proof -
    have listed: "fst (repo_findAll memory_externals
                         (if includeDeleted with_deleted = None
                          then with_deleted\<lparr>includeDeleted := Some False\<rparr> else with_deleted)
                         (world state0)) = Inr [row1, row2]"
      by (simp add: memory_defs with_deleted_def)
    show ?thesis
      by (rule image_resolution_rule [where E = memory_externals and cfg = config0 and s = state0
            and filters = with_deleted and ps = "[row1, row2]",
            THEN conjunct2, THEN conjunct2, THEN conjunct2, THEN conjunct2, THEN conjunct2,
            THEN conjunct1, THEN mp, OF listed])
  qed
  have made: "fst (repo_create placeholder_repository
                    (if createProductDto.stockQuantity widget = Some 0
                     then widget\<lparr>createProductDto.inStock := Some False\<rparr> else widget) (world state0))
                = Inr row3_placeholder"
    by (simp add: placeholder_repository_def placeholder_image_def row3_placeholder_def widget_def
          eval_defs)
  have both: "fst (create placeholder_repository widget state0) = Inr (productData row3_placeholder)
      \<and> productEntity.imageUrl (productData row3_placeholder) = productEntity.imageUrl row3_placeholder"
    using image_resolution_rule [where E = placeholder_repository and s = state0 and dto = widget
        and created = row3_placeholder] made by blast
  from both show "fst (create placeholder_repository widget state0)
      = Inr (row3_placeholder\<lparr>isDeleted := Absent\<rparr>)"
    by (simp add: productData_def)
  from both show "productEntity.imageUrl (row3_placeholder\<lparr>isDeleted := Absent\<rparr>)
      = Value ''http://localhost:9000/products/placeholder.jpg''"
    by (simp add: productData_def row3_placeholder_def placeholder_image_def)
qed

section \<open>\<open>findAll\<close>: default filter and order\<close>

text \<open>
  Claim C7: for every filters input, the one repository call of \<^verbatim>\<open>findAll\<close> is the query;
  when \<^verbatim>\<open>includeDeleted\<close> is not supplied the query is made with
  \<^verbatim>\<open>includeDeleted = false\<close>, and a supplied value is passed on as it is. The returned
  list has the length of the repository's list, and its item at each index is the
  repository's product at that index, resolved and without the flag: all other properties
  are the same.
\<close>

theorem findAll_default_and_order:
  "(includeDeleted filters = None \<longrightarrow>
      repository_calls (trace (snd (findAll E cfg filters s)))
        = repository_calls (trace s) @ [RepoFindAll (filters\<lparr>includeDeleted := Some False\<rparr>)])
   \<and> (includeDeleted filters \<noteq> None \<longrightarrow>
      repository_calls (trace (snd (findAll E cfg filters s)))
        = repository_calls (trace s) @ [RepoFindAll filters])
   \<and> (fst (repo_findAll E (if includeDeleted filters = None then filters\<lparr>includeDeleted := Some False\<rparr>
                            else filters) (world s)) = Inr ps \<longrightarrow>
      (\<exists>rs. fst (findAll E cfg filters s) = Inr rs
         \<and> length rs = length ps
         \<and> (\<forall>i < length ps.
               productEntity.more (rs ! i) = productEntity.more (ps ! i)
               \<and> (\<exists>w. rs ! i = productData (resolved E cfg w (ps ! i))))))"
proof -
  let ?filters = "if includeDeleted filters = None then filters\<lparr>includeDeleted := Some False\<rparr> else filters"
  let ?f = "\<lambda>product. bind (resolveImage True E cfg product) (\<lambda>product. ret (productData product))"
  let ?s1 = "\<lparr>world = snd (repo_findAll E ?filters (world s)), trace = trace s @ [RepoFindAll ?filters]\<rparr>"
  have unfold: "findAll E cfg filters s
      = (case fst (repo_findAll E ?filters (world s)) of
           Inl e \<Rightarrow> (Inl e, ?s1)
         | Inr ps \<Rightarrow> promise_all_map ?f ps ?s1)"
    by (simp add: findAll_run Let_def)
  have calls: "repository_calls (trace (snd (findAll E cfg filters s)))
      = repository_calls (trace s) @ [RepoFindAll ?filters]"
  proof (cases "fst (repo_findAll E ?filters (world s))")
    case (Inl e)
    then show ?thesis
      by (simp add: unfold repository_calls_simps del: if_split cong: if_cong)
  next
    case (Inr ps)
    obtain rs s' where "promise_all_map ?f ps ?s1 = (Inr rs, s')"
      and "repository_calls (trace s') = repository_calls (trace ?s1)"
      using promise_all_map_resolve [of True E cfg ps ?s1] by blast
    with Inr show ?thesis
      by (simp add: unfold repository_calls_simps)
  qed
  have items: "\<exists>rs. fst (findAll E cfg filters s) = Inr rs
         \<and> length rs = length ps
         \<and> (\<forall>i < length ps.
               productEntity.more (rs ! i) = productEntity.more (ps ! i)
               \<and> (\<exists>w. rs ! i = productData (resolved E cfg w (ps ! i))))"
    if ps: "fst (repo_findAll E ?filters (world s)) = Inr ps"
  proof -
    obtain rs s' where r: "promise_all_map ?f ps ?s1 = (Inr rs, s')"
      and len: "length rs = length ps"
      and each: "\<forall>i < length ps. \<exists>w. rs ! i = productData (resolved E cfg w (ps ! i))"
      using promise_all_map_resolve [of True E cfg ps ?s1] by blast
    have "productEntity.more (rs ! i) = productEntity.more (ps ! i)" if "i < length ps" for i
    proof -
      from each that obtain w where "rs ! i = productData (resolved E cfg w (ps ! i))" by blast
      then show ?thesis by (simp add: productData_def resolved_more)
    qed
    with r len each ps show ?thesis
      by (simp add: unfold)
  qed
  show ?thesis
    using calls items by simp
qed

theorem findAll_default_and_order_witness:
  "repository_calls (trace (snd (findAll memory_externals config0 no_filters state0)))
     = [RepoFindAll \<lparr>includeDeleted = Some False\<rparr>]
   \<and> repository_calls (trace (snd (findAll memory_externals config0 with_deleted state0)))
     = [RepoFindAll \<lparr>includeDeleted = Some True\<rparr>]
   \<and> fst (repo_findAll memory_externals with_deleted (world state0)) = Inr [row1, row2]
   \<and> (\<exists>rs. fst (findAll memory_externals config0 with_deleted state0) = Inr rs
         \<and> length rs = length [row1, row2]
         \<and> (\<forall>i < length [row1, row2].
               productEntity.more (rs ! i) = productEntity.more ([row1, row2] ! i)
               \<and> (\<exists>w. rs ! i = productData (resolved memory_externals config0 w ([row1, row2] ! i)))))
   \<and> fst (findAll memory_externals config0 with_deleted state0)
     = Inr [row1_signed, row2\<lparr>isDeleted := Absent\<rparr>]
   \<and> fst (findAll memory_externals config0 no_filters state0) = Inr [row1_signed]"
proof -
  have none: "includeDeleted no_filters = None"
    by (simp add: no_filters_def)
  have some: "includeDeleted with_deleted \<noteq> None"
    by (simp add: with_deleted_def)
  have listed: "fst (repo_findAll memory_externals with_deleted (world state0)) = Inr [row1, row2]"
    by (simp add: memory_defs with_deleted_def)
  have a: "repository_calls (trace (snd (findAll memory_externals config0 no_filters state0)))
      = repository_calls (trace state0) @ [RepoFindAll (no_filters\<lparr>includeDeleted := Some False\<rparr>)]"
    using findAll_default_and_order [of no_filters memory_externals config0 state0] none by blast
  have b: "repository_calls (trace (snd (findAll memory_externals config0 with_deleted state0)))
      = repository_calls (trace state0) @ [RepoFindAll with_deleted]"
    using findAll_default_and_order [of with_deleted memory_externals config0 state0] some by blast
  have c: "\<exists>rs. fst (findAll memory_externals config0 with_deleted state0) = Inr rs
         \<and> length rs = length [row1, row2]
         \<and> (\<forall>i < length [row1, row2].
               productEntity.more (rs ! i) = productEntity.more ([row1, row2] ! i)
               \<and> (\<exists>w. rs ! i = productData (resolved memory_externals config0 w ([row1, row2] ! i))))"
    using findAll_default_and_order [of with_deleted memory_externals config0 state0 "[row1, row2]"] some listed by simp
  have a': "repository_calls (trace (snd (findAll memory_externals config0 no_filters state0)))
     = [RepoFindAll \<lparr>includeDeleted = Some False\<rparr>]"
    unfolding a by (simp add: state0_def repository_calls_simps no_filters_def)
  have b': "repository_calls (trace (snd (findAll memory_externals config0 with_deleted state0)))
     = [RepoFindAll \<lparr>includeDeleted = Some True\<rparr>]"
    unfolding b by (simp add: state0_def repository_calls_simps with_deleted_def)
  show ?thesis
    using a' b' c listed findAll_memory_with_deleted findAll_memory by blast
qed

end
